theory Spec2Isabelle
  imports Main "HOL-Library.Word"
begin

section \<open>Machine values\<close>

text \<open>
  The two extension modules \<^verbatim>\<open>um_packing.c\<close> and \<^verbatim>\<open>um_sstpert.c\<close> are bindings: they
  take arguments from Python, call the UM packing and SST perturbation libraries, and hand
  the result back. Memory is modelled as it is used: the packed stream as a list of bytes,
  a field as a list of doubles (each a 64-bit IEEE-754 pattern, never computed with here),
  and every \<^verbatim>\<open>int64_t\<close> as an \<open>int\<close> with the 64-bit wrap-around written out
  where the source computes.
\<close>

type_synonym byte = "8 word"
type_synonym double = "64 word"

definition s64 :: "int \<Rightarrow> int" where
  "s64 x = (x + 2 ^ 63) mod 2 ^ 64 - 2 ^ 63"

text \<open>C's integer division truncates towards zero.\<close>

definition c_div :: "int \<Rightarrow> int \<Rightarrow> int" where
  "c_div a b = sgn a * sgn b * (\<bar>a\<bar> div \<bar>b\<bar>)"

text \<open>The cast \<^verbatim>\<open>(size_t)\<close> of an \<^verbatim>\<open>int64_t\<close>.\<close>

definition size_t :: "int \<Rightarrow> nat" where
  "size_t x = nat (x mod 2 ^ 64)"

section \<open>Data\<close>

datatype endianism = bigEndian | littleEndian

datatype pyexc = ValueError | MemoryError | SystemError

text \<open>
  A call returns an object, or returns \<^verbatim>\<open>NULL\<close> with a Python exception set, or runs into
  undefined behaviour of C (an access through a \<^verbatim>\<open>NULL\<close> pointer, a read past the end of
  an array), which the model keeps as a result of its own.
\<close>

datatype fault = NullPointer | OutOfBounds

datatype 'a outcome = Returns 'a | Raises pyexc string | Fault fault

text \<open>A \<^verbatim>\<open>PyArrayObject\<close>: its dimensions (\<^verbatim>\<open>PyArray_DIMS\<close>) and its data (\<^verbatim>\<open>PyArray_DATA\<close>).\<close>

record 'a ndarray =
  dims :: "int list"
  data :: "'a list"

text \<open>
  The calls a binding makes, in the order it makes them. A call of \<^verbatim>\<open>pio_byteswap\<close> is
  kept with its word count and word length, a call of \<^verbatim>\<open>read_wgdos_header\<close> with the bytes
  it is given, a call of \<^verbatim>\<open>calloc\<close> with the number of members asked for, and a call of
  \<^verbatim>\<open>cmps_all_wrapper\<close> with whether its packed buffer is a block (\<open>False\<close>: it is
  \<^verbatim>\<open>NULL\<close>).
\<close>

datatype event =
    Call_get_machine_endianism
  | Call_pio_byteswap int int
  | Call_read_wgdos_header "byte list"
  | Call_calloc nat
  | Call_xpnd_all_wrapper
  | Call_cmps_all_wrapper bool
  | Call_sstpert
  | Call_PyArray_SimpleNewFromData "int list"
  | Call_PyString_FromStringAndSize int
  | Call_free

text \<open>
  The state a call runs in: the caller's byte string (\<^verbatim>\<open>bytes_in\<close> points into it), the data
  of the caller's field (\<^verbatim>\<open>field_ptr\<close> points to it), the number of blocks obtained from
  \<^verbatim>\<open>calloc\<close> and not freed (a returned array owns its block), and the calls made so far.
\<close>

record world =
  bytes_in :: "byte list"
  field_in :: "double list"
  allocated :: nat
  trace :: "event list"

text \<open>
  What the bindings call and do not define: the UM library routines declared in
  \<^verbatim>\<open>pio_byteswap.h\<close>, \<^verbatim>\<open>read_wgdos_header.h\<close>, \<^verbatim>\<open>packing_wrappers.h\<close> and \<^verbatim>\<open>sstpert.h\<close>,
  and the allocator and the Python runtime, each of which may refuse. They are parameters.
  A routine is given the memory its pointer arguments point to and returns what it leaves
  there with its other results:
  \<^item> \<open>pio_byteswap array len word_len\<close> returns the status and the array;
  \<^item> \<open>read_wgdos_header bytes\<close> returns the status, accuracy, cols and rows;
  \<^item> \<open>xpnd_all_wrapper dataout packed len_comp cols rows accuracy mdi\<close> returns
    \<open>dataout\<close>, the status and the error message; it reads the packed words;
  \<^item> \<open>cmps_all_wrapper field comp len_comp cols rows accuracy mdi\<close> returns \<open>comp\<close>,
    \<open>num_words\<close>, the status and the error message; it reads the field;
  \<^item> \<open>sstpert factor dt rows cols fieldclim dataout\<close> returns \<open>dataout\<close>.

  \<open>wgdos_pack_py\<close> passes on a packed buffer that may be \<^verbatim>\<open>NULL\<close>. What a routine does
  with it is a parameter too: \<open>None\<close> when it goes through the pointer (undefined
  behaviour), and otherwise what it returns without touching the buffer:
  \<^item> \<open>cmps_all_wrapper_null field len_comp cols rows accuracy mdi\<close> returns
    \<open>num_words\<close>, the status and the error message;
  \<^item> \<open>pio_byteswap_null len word_len\<close> returns the status.
  A string that Python makes from a \<^verbatim>\<open>NULL\<close> source holds the bytes its fresh memory
  happens to hold: \<open>uninitialised i\<close> is the byte at offset \<open>i\<close>.
\<close>

record extern =
  get_machine_endianism :: endianism
  pio_byteswap :: "byte list \<Rightarrow> int \<Rightarrow> int \<Rightarrow> int \<times> byte list"
  read_wgdos_header :: "byte list \<Rightarrow> int \<times> int \<times> int \<times> int"
  xpnd_all_wrapper ::
    "double list \<Rightarrow> byte list \<Rightarrow> int \<Rightarrow> int \<Rightarrow> int \<Rightarrow> int \<Rightarrow> double \<Rightarrow> double list \<times> int \<times> string"
  cmps_all_wrapper ::
    "double list \<Rightarrow> byte list \<Rightarrow> int \<Rightarrow> int \<Rightarrow> int \<Rightarrow> int \<Rightarrow> double \<Rightarrow> byte list \<times> int \<times> int \<times> string"
  sstpert :: "double \<Rightarrow> int list \<Rightarrow> int \<Rightarrow> int \<Rightarrow> double list \<Rightarrow> double list \<Rightarrow> double list"
  calloc_ok :: "nat \<Rightarrow> bool"
  PyArray_SimpleNewFromData_ok :: "int list \<Rightarrow> bool"
  PyString_FromStringAndSize_ok :: "int \<Rightarrow> bool"
  cmps_all_wrapper_null ::
    "double list \<Rightarrow> int \<Rightarrow> int \<Rightarrow> int \<Rightarrow> int \<Rightarrow> double \<Rightarrow> (int \<times> int \<times> string) option"
  pio_byteswap_null :: "int \<Rightarrow> int \<Rightarrow> int option"
  uninitialised :: "nat \<Rightarrow> byte"

section \<open>The allocator\<close>

definition record_call :: "event \<Rightarrow> world \<Rightarrow> world" where
  "record_call e s = s\<lparr>trace := trace s @ [e]\<rparr>"

text \<open>\<^verbatim>\<open>calloc(nmemb, 8)\<close>: whether a block was obtained (\<open>False\<close> is \<^verbatim>\<open>NULL\<close>).\<close>

definition calloc :: "extern \<Rightarrow> nat \<Rightarrow> world \<Rightarrow> bool \<times> world" where
  "calloc env nmemb s =
     (if calloc_ok env nmemb
      then (True, record_call (Call_calloc nmemb) (s\<lparr>allocated := Suc (allocated s)\<rparr>))
      else (False, record_call (Call_calloc nmemb) s))"

definition free :: "world \<Rightarrow> world" where
  "free s = record_call Call_free (s\<lparr>allocated := allocated s - 1\<rparr>)"

text \<open>
  \<^verbatim>\<open>free\<close> of a pointer that may be \<^verbatim>\<open>NULL\<close> (\<open>None\<close>): the call is made and
  \<^verbatim>\<open>free(NULL)\<close> releases nothing.
\<close>

definition free_ptr :: "byte list option \<Rightarrow> world \<Rightarrow> world" where
  "free_ptr ptr s = (case ptr of None \<Rightarrow> record_call Call_free s | Some block \<Rightarrow> free s)"

section \<open>\<^verbatim>\<open>wgdos_unpack_py\<close>\<close>

text \<open>
  Lines 104 to 166: read the header, allocate the field, unpack, wrap the field in an array
  that owns it. \<open>n_bytes\<close> is the length Python gave for the byte string.
\<close>

definition unpack_field ::
  "extern \<Rightarrow> int \<Rightarrow> double \<Rightarrow> world \<Rightarrow> double ndarray outcome \<times> world" where
  "unpack_field env n_bytes mdi s =
     (let (status, accuracy, cols, rows) = read_wgdos_header env (bytes_in s);
          s1 = record_call (Call_read_wgdos_header (bytes_in s)) s
      in if status \<noteq> 0 then (Raises ValueError ''Problem reading WGDOS header'', s1)
         else
           (let nmemb = size_t (s64 (rows * cols));
                (ok, s2) = calloc env nmemb s1
            in if \<not> ok then (Raises ValueError ''Unable to allocate memory for unpacking'', s2)
               else
                 (let len_comp = c_div n_bytes 8;
                      (dataout, status, err_msg) =
                         xpnd_all_wrapper env (replicate nmemb 0) (bytes_in s2) len_comp cols rows
                           accuracy mdi;
                      s3 = record_call Call_xpnd_all_wrapper s2
                  in if status \<noteq> 0 then (Raises ValueError err_msg, free s3)
                     else
                       (let s4 = record_call (Call_PyArray_SimpleNewFromData [rows, cols]) s3
                        in if \<not> PyArray_SimpleNewFromData_ok env [rows, cols]
                           then (Raises ValueError ''Failed to make numpy array'', free s4)
                           else (Returns \<lparr>dims = [rows, cols], data = dataout\<rparr>, s4)))))"

text \<open>Lines 72 to 102, then the rest: the byte swap in place on a little-endian machine.\<close>

definition wgdos_unpack_py ::
  "extern \<Rightarrow> double \<Rightarrow> world \<Rightarrow> double ndarray outcome \<times> world" where
  "wgdos_unpack_py env mdi s =
     (let n_bytes = int (length (bytes_in s));
          s1 = record_call Call_get_machine_endianism s
      in if get_machine_endianism env = littleEndian
         then
           (let len = c_div n_bytes 8;
                (status, swapped) = pio_byteswap env (bytes_in s1) len 8;
                s2 = record_call (Call_pio_byteswap len 8) (s1\<lparr>bytes_in := swapped\<rparr>)
            in if status \<noteq> 0 then (Raises ValueError ''Problem in byte-swapping'', s2)
               else unpack_field env n_bytes mdi s2)
         else unpack_field env n_bytes mdi s1)"

section \<open>\<^verbatim>\<open>wgdos_pack_py\<close>\<close>

text \<open>
  The packed buffer \<^verbatim>\<open>comp_field_ptr\<close> is the block that \<^verbatim>\<open>calloc\<close> gave, with its bytes,
  or \<^verbatim>\<open>NULL\<close> (\<open>None\<close>): the binding does not test it and carries it through every line
  below.

  Lines 236 to 243: \<^verbatim>\<open>PyString_FromStringAndSize\<close> copies \<open>out_len\<close> bytes out of the packed
  buffer, which is then freed whether or not the string was made. Python refuses a negative
  size, and a size beyond the block reads past its end. From a \<^verbatim>\<open>NULL\<close> source Python
  makes a string of that size and writes nothing into it.
\<close>

definition string_out ::
  "extern \<Rightarrow> byte list option \<Rightarrow> int \<Rightarrow> world \<Rightarrow> byte list outcome \<times> world" where
  "string_out env ptr_char out_len s =
     (let s1 = record_call (Call_PyString_FromStringAndSize out_len) s
      in if out_len < 0
         then (Raises SystemError ''Negative size passed to PyString_FromStringAndSize'',
               free_ptr ptr_char s1)
         else
           (case ptr_char of
              Some block \<Rightarrow>
                if int (length block) < out_len then (Fault OutOfBounds, s1)
                else if \<not> PyString_FromStringAndSize_ok env out_len
                then (Raises MemoryError [], free_ptr ptr_char s1)
                else (Returns (take (nat out_len) block), free_ptr ptr_char s1)
            | None \<Rightarrow>
                if \<not> PyString_FromStringAndSize_ok env out_len
                then (Raises MemoryError [], free_ptr ptr_char s1)
                else (Returns (map (uninitialised env) [0..<nat out_len]), free_ptr ptr_char s1)))"

text \<open>
  Lines 227 to 229: the call of \<^verbatim>\<open>pio_byteswap\<close> on the packed buffer. The result is the
  status with the buffer as the routine leaves it, or \<open>None\<close> when the routine goes through
  a \<^verbatim>\<open>NULL\<close> pointer.
\<close>

definition byteswap_out ::
  "extern \<Rightarrow> byte list option \<Rightarrow> int \<Rightarrow> (int \<times> byte list option) option" where
  "byteswap_out env ptr_char num_words =
     (case ptr_char of
        Some block \<Rightarrow>
          (let (status, swapped) = pio_byteswap env block num_words 8
           in Some (status, Some swapped))
      | None \<Rightarrow>
          (case pio_byteswap_null env num_words 8 of
             None \<Rightarrow> None
           | Some status \<Rightarrow> Some (status, None)))"

text \<open>Lines 218 to 243: round to 64-bit words, swap on the way out, make the string.\<close>

definition pack_output ::
  "extern \<Rightarrow> byte list option \<Rightarrow> int \<Rightarrow> world \<Rightarrow> byte list outcome \<times> world" where
  "pack_output env comp_field_ptr num_words0 s =
     (let num_words = c_div (s64 (num_words0 + 1)) 2;
          out_len = s64 (num_words * 8);
          s1 = record_call Call_get_machine_endianism s
      in if get_machine_endianism env = littleEndian
         then
           (let s2 = record_call (Call_pio_byteswap num_words 8) s1
            in case byteswap_out env comp_field_ptr num_words of
                 None \<Rightarrow> (Fault NullPointer, s2)
               | Some (status, ptr_char) \<Rightarrow>
                   if status \<noteq> 0 then (Raises ValueError ''Problem in byte-swapping'', s2)
                   else string_out env ptr_char out_len s2)
         else string_out env comp_field_ptr out_len s1)"

text \<open>
  Lines 187 to 210: the call of the packing routine. \<open>dims_in\<close> is \<^verbatim>\<open>PyArray_DIMS(datain)\<close>.
  The packed buffer handed over is the zeroed block of \<open>len_comp\<close> 64-bit words when
  \<^verbatim>\<open>calloc\<close> gave one and \<^verbatim>\<open>NULL\<close> when it did not. The result is the buffer as the routine
  leaves it with \<open>num_words\<close>, the status and the error message, or \<open>None\<close> when the
  routine goes through a \<^verbatim>\<open>NULL\<close> pointer.
\<close>

definition cmps_call ::
  "extern \<Rightarrow> int list \<Rightarrow> double \<Rightarrow> int \<Rightarrow> world
     \<Rightarrow> (byte list option \<times> int \<times> int \<times> string) option" where
  "cmps_call env dims_in mdi accuracy s =
     (let rows = dims_in ! 0;
          cols = dims_in ! 1;
          len_comp = s64 (rows * cols)
      in if calloc_ok env (size_t len_comp)
         then
           (let (comp_field, num_words, status, err_msg) =
                  cmps_all_wrapper env (field_in s) (replicate (8 * size_t len_comp) 0)
                    len_comp cols rows accuracy mdi
            in Some (Some comp_field, num_words, status, err_msg))
         else
           (case cmps_all_wrapper_null env (field_in s) len_comp cols rows accuracy mdi of
              None \<Rightarrow> None
            | Some (num_words, status, err_msg) \<Rightarrow> Some (None, num_words, status, err_msg)))"

text \<open>
  Lines 169 to 216. The first two entries of \<^verbatim>\<open>PyArray_DIMS(datain)\<close> are read whatever the
  number of dimensions, and the result of \<^verbatim>\<open>calloc\<close> is passed on unchecked: the packing
  routine is called with the buffer or with \<^verbatim>\<open>NULL\<close>, and the binding goes by its status.
\<close>

definition wgdos_pack_py ::
  "extern \<Rightarrow> int list \<Rightarrow> double \<Rightarrow> int \<Rightarrow> world \<Rightarrow> byte list outcome \<times> world" where
  "wgdos_pack_py env dims_in mdi accuracy s =
     (if length dims_in < 2 then (Fault OutOfBounds, s)
      else
        (let rows = dims_in ! 0;
             cols = dims_in ! 1;
             len_comp = s64 (rows * cols);
             (ok, s1) = calloc env (size_t len_comp) s;
             s2 = record_call (Call_cmps_all_wrapper ok) s1
         in case cmps_call env dims_in mdi accuracy s1 of
              None \<Rightarrow> (Fault NullPointer, s2)
            | Some (comp_field_ptr, num_words, status, err_msg) \<Rightarrow>
                if status \<noteq> 0 then (Raises ValueError err_msg, free_ptr comp_field_ptr s2)
                else pack_output env comp_field_ptr num_words s2))"

section \<open>\<^verbatim>\<open>sstpert_py\<close>\<close>

definition sstpert_py ::
  "extern \<Rightarrow> double \<Rightarrow> int ndarray \<Rightarrow> double ndarray \<Rightarrow> world \<Rightarrow> double ndarray outcome \<times> world" where
  "sstpert_py env factor dt fieldclim s =
     (if length (dims fieldclim) < 3 then (Fault OutOfBounds, s)
      else
        (let rows = dims fieldclim ! 0;
             cols = dims fieldclim ! 1;
             months = dims fieldclim ! 2
         in if months \<noteq> 12
            then (Raises ValueError ''Climatology must have a final dimension of 12'', s)
            else if length (dims dt) < 1 then (Fault OutOfBounds, s)
            else
              (let len_dt = dims dt ! 0
               in if len_dt \<noteq> 8 then (Raises ValueError ''Date array must have 8 elements'', s)
                  else
                    (let len_comp = s64 (rows * cols);
                         (ok, s1) = calloc env (size_t len_comp) s
                     in if \<not> ok
                        then (Raises ValueError ''Unable to allocate memory for sstpert'', s1)
                        else
                          (let dataout = sstpert env factor (data dt) rows cols (data fieldclim)
                                           (replicate (size_t len_comp) 0);
                               s2 = record_call Call_sstpert s1;
                               s3 = record_call (Call_PyArray_SimpleNewFromData [rows, cols]) s2
                           in if \<not> PyArray_SimpleNewFromData_ok env [rows, cols]
                              then (Raises ValueError ''Failed to make numpy array'', free s3)
                              else (Returns \<lparr>dims = [rows, cols], data = dataout\<rparr>, s3))))))"

section \<open>The library routines, as far as the specification describes them\<close>

text \<open>
  Modelled from the spec: \<^verbatim>\<open>pio_byteswap\<close> (declared in \<^verbatim>\<open>pio_byteswap.h\<close>, its body is not
  with the bindings). Section 4.1: the buffer, taken as \<open>N\<close> words of width \<open>W\<close>, has the
  bytes of each word reversed in place. The routine is told \<open>N\<close> and \<open>W\<close> and no
  length in bytes; what lies behind the \<open>N\<close> words is left as it is.
\<close>

fun swap_words :: "nat \<Rightarrow> nat \<Rightarrow> byte list \<Rightarrow> byte list" where
  "swap_words 0 w bs = bs"
| "swap_words (Suc n) w bs = rev (take w bs) @ swap_words n w (drop w bs)"

definition pio_byteswap_spec :: "byte list \<Rightarrow> int \<Rightarrow> int \<Rightarrow> int \<times> byte list" where
  "pio_byteswap_spec array len word_len =
     (if len < 0 \<or> word_len \<le> 0 then (1, array)
      else (0, swap_words (nat len) (nat word_len) array))"

text \<open>The \<^verbatim>\<open>int64_t\<close> held by eight bytes in the order of a little-endian machine.\<close>

definition le_int64 :: "byte list \<Rightarrow> int" where
  "le_int64 bs = s64 (foldr (\<lambda>b acc. uint b + 256 * acc) (take 8 bs) 0)"

definition le_bytes :: "int \<Rightarrow> byte list" where
  "le_bytes x = map (\<lambda>i. word_of_int (x div 256 ^ i)) [0..<8]"

definition word_at :: "byte list \<Rightarrow> nat \<Rightarrow> int" where
  "word_at bs i = le_int64 (drop (8 * i) bs)"

text \<open>
  Modelled from the spec: \<^verbatim>\<open>read_wgdos_header\<close> (declared in \<^verbatim>\<open>read_wgdos_header.h\<close>, its
  body is not with the bindings). Sections 4.2 and 6: the leading words hold the accuracy
  exponent, cols, rows and the payload length, in this order; the header is malformed when
  the bytes are fewer than the header or when cols or rows is not positive. The widths are
  not given by the specification; each field is taken to be one 8-byte word.
\<close>

definition read_wgdos_header_spec :: "byte list \<Rightarrow> int \<times> int \<times> int \<times> int" where
  "read_wgdos_header_spec bs =
     (let accuracy = word_at bs 0; cols = word_at bs 1; rows = word_at bs 2
      in (if length bs < 32 \<or> cols \<le> 0 \<or> rows \<le> 0 then 1 else 0, accuracy, cols, rows))"

text \<open>
  Modelled from the spec: \<^verbatim>\<open>xpnd_all_wrapper\<close> (declared in \<^verbatim>\<open>packing_wrappers.h\<close>, the
  packing library is not with the bindings). Of the row kinds of section 4.4 only the
  all-missing row is modelled, as one word 0 for each row after the header: such a row is
  filled with \<open>mdi\<close>. Too few words are a truncated row, and a row record of any other
  kind is refused.
\<close>

definition xpnd_all_wrapper_spec ::
  "double list \<Rightarrow> byte list \<Rightarrow> int \<Rightarrow> int \<Rightarrow> int \<Rightarrow> int \<Rightarrow> double \<Rightarrow> double list \<times> int \<times> string" where
  "xpnd_all_wrapper_spec dataout packed len_comp cols rows accuracy mdi =
     (if len_comp < 4 + rows then (dataout, 1, ''TruncatedRow'')
      else if list_ex (\<lambda>i. word_at packed (4 + i) \<noteq> 0) [0..<nat rows]
      then (dataout, 2, ''CorruptRowHeader'')
      else (replicate (nat (rows * cols)) mdi, 0, []))"

text \<open>
  Modelled from the spec: \<^verbatim>\<open>cmps_all_wrapper\<close> (declared in \<^verbatim>\<open>packing_wrappers.h\<close>, the
  packing library is not with the bindings). Of the row kinds of section 4.3 only the
  all-missing row (step 1) is modelled: a field of \<open>mdi\<close> alone packs to the header and
  one word 0 for each row, and \<open>num_words\<close> counts 32-bit words. A field with a present
  cell, or one whose packed form does not fit \<open>len_comp\<close> words, is refused.
\<close>

definition cmps_all_wrapper_spec ::
  "double list \<Rightarrow> byte list \<Rightarrow> int \<Rightarrow> int \<Rightarrow> int \<Rightarrow> int \<Rightarrow> double \<Rightarrow> byte list \<times> int \<times> int \<times> string" where
  "cmps_all_wrapper_spec field comp_field len_comp cols rows accuracy mdi =
     (if rows \<le> 0 \<or> cols \<le> 0 \<or> len_comp < 4 + rows then (comp_field, 0, 1, ''packed field does not fit'')
      else if list_ex (\<lambda>v. v \<noteq> mdi) (take (nat (rows * cols)) field)
      then (comp_field, 0, 2, ''row kind not modelled'')
      else
        (let packed = le_bytes accuracy @ le_bytes cols @ le_bytes rows @ le_bytes rows
                        @ replicate (8 * nat rows) 0
         in (packed @ drop (length packed) comp_field, 2 * (4 + rows), 0, [])))"

text \<open>
  Modelled from the spec: \<^verbatim>\<open>cmps_all_wrapper\<close> and \<^verbatim>\<open>pio_byteswap\<close> handed \<^verbatim>\<open>NULL\<close>
  for the buffer (their bodies are not with the bindings). The packing routine refuses a
  field as it does with a block, before anything is written, and writes the packed words
  through the pointer otherwise. The byte swap touches no byte when asked for no word and
  goes through the pointer otherwise.
\<close>

definition cmps_all_wrapper_null_spec ::
  "double list \<Rightarrow> int \<Rightarrow> int \<Rightarrow> int \<Rightarrow> int \<Rightarrow> double \<Rightarrow> (int \<times> int \<times> string) option" where
  "cmps_all_wrapper_null_spec field len_comp cols rows accuracy mdi =
     (let (comp_field, num_words, status, err_msg) =
            cmps_all_wrapper_spec field [] len_comp cols rows accuracy mdi
      in if status \<noteq> 0 then Some (num_words, status, err_msg) else None)"

definition pio_byteswap_null_spec :: "int \<Rightarrow> int \<Rightarrow> int option" where
  "pio_byteswap_null_spec len word_len =
     (if len < 0 \<or> word_len \<le> 0 then Some 1 else if len = 0 then Some 0 else None)"

text \<open>
  Modelled from the spec: \<^verbatim>\<open>sstpert\<close> (declared in \<^verbatim>\<open>sstpert.h\<close>, its body is not with the
  bindings). Section 6 takes the routine as an opaque function that fills the anomaly grid;
  nothing is said of the values, and the grid is left as \<^verbatim>\<open>calloc\<close> gave it.
\<close>

definition sstpert_spec ::
  "double \<Rightarrow> int list \<Rightarrow> int \<Rightarrow> int \<Rightarrow> double list \<Rightarrow> double list \<Rightarrow> double list" where
  "sstpert_spec factor dt rows cols fieldclim dataout = dataout"

text \<open>
  A little-endian machine with these routines, an allocator that gives any block below
  \<open>2 ^ 20\<close> members, a Python runtime that makes every array and string, and fresh
  memory that holds zeros.
\<close>

definition le_host :: extern where
  "le_host =
     \<lparr>get_machine_endianism = littleEndian,
      pio_byteswap = pio_byteswap_spec,
      read_wgdos_header = read_wgdos_header_spec,
      xpnd_all_wrapper = xpnd_all_wrapper_spec,
      cmps_all_wrapper = cmps_all_wrapper_spec,
      sstpert = sstpert_spec,
      calloc_ok = (\<lambda>nmemb. int nmemb < 2 ^ 20),
      PyArray_SimpleNewFromData_ok = (\<lambda>ds. True),
      PyString_FromStringAndSize_ok = (\<lambda>n. True),
      cmps_all_wrapper_null = cmps_all_wrapper_null_spec,
      pio_byteswap_null = pio_byteswap_null_spec,
      uninitialised = (\<lambda>i. 0)\<rparr>"

text \<open>The state before a call: the caller's bytes and field, nothing allocated, no call made.\<close>

definition start :: "byte list \<Rightarrow> double list \<Rightarrow> world" where
  "start bs field = \<lparr>bytes_in = bs, field_in = field, allocated = 0, trace = []\<rparr>"

text \<open>The missing data indicator of the examples: the double \<open>-9999.0\<close>.\<close>

definition missing :: double where
  "missing = 0xC0C3878000000000"

text \<open>
  A packed stream as it is on file (big-endian words): accuracy 0, two columns, one row,
  one payload word, and the record of one all-missing row.
\<close>

definition stream_1x2 :: "byte list" where
  "stream_1x2 =
     [0, 0, 0, 0, 0, 0, 0, 0,
      0, 0, 0, 0, 0, 0, 0, 2,
      0, 0, 0, 0, 0, 0, 0, 1,
      0, 0, 0, 0, 0, 0, 0, 1,
      0, 0, 0, 0, 0, 0, 0, 0]"

text \<open>The events of a trace that are calls of one routine.\<close>

fun is_read_wgdos_header :: "event \<Rightarrow> bool" where
  "is_read_wgdos_header (Call_read_wgdos_header bs) = True"
| "is_read_wgdos_header e = False"

fun is_pio_byteswap :: "event \<Rightarrow> bool" where
  "is_pio_byteswap (Call_pio_byteswap len word_len) = True"
| "is_pio_byteswap e = False"

text \<open>A word of eight bytes that reads the same in both byte orders.\<close>

definition palindrome_word :: "byte list \<Rightarrow> nat \<Rightarrow> bool" where
  "palindrome_word bs i = (rev (take 8 (drop (8 * i) bs)) = take 8 (drop (8 * i) bs))"

text \<open>The same routines on a big-endian machine.\<close>

definition be_host :: extern where
  "be_host = le_host\<lparr>get_machine_endianism := bigEndian\<rparr>"

text \<open>
  A little-endian machine whose \<^verbatim>\<open>pio_byteswap\<close> reports a failure and leaves the array as
  it is: the bindings test its status, so they take a non-zero status as possible.
\<close>

definition swap_refused :: extern where
  "swap_refused = le_host\<lparr>pio_byteswap := (\<lambda>array len word_len. (1, array))\<rparr>"

text \<open>A machine on which \<^verbatim>\<open>calloc\<close> returns \<^verbatim>\<open>NULL\<close>.\<close>

definition no_memory :: extern where
  "no_memory = le_host\<lparr>calloc_ok := (\<lambda>nmemb. False)\<rparr>"


section \<open>What the allocator and the log leave alone\<close>

lemma record_call_simps:
  "bytes_in (record_call e s) = bytes_in s"
  "field_in (record_call e s) = field_in s"
  "allocated (record_call e s) = allocated s"
  "trace (record_call e s) = trace s @ [e]"
  by (simp_all add: record_call_def)

lemma free_simps:
  "bytes_in (free s) = bytes_in s"
  "field_in (free s) = field_in s"
  "allocated (free s) = allocated s - 1"
  "trace (free s) = trace s @ [Call_free]"
  by (simp_all add: free_def record_call_def)

lemma calloc_simps:
  "bytes_in (snd (calloc env n s)) = bytes_in s"
  "field_in (snd (calloc env n s)) = field_in s"
  "trace (snd (calloc env n s)) = trace s @ [Call_calloc n]"
  "fst (calloc env n s) = calloc_ok env n"
  "allocated (snd (calloc env n s)) = (if calloc_ok env n then Suc (allocated s) else allocated s)"
  by (simp_all add: calloc_def record_call_def)

lemma start_simps:
  "bytes_in (start bs f) = bs"
  "field_in (start bs f) = f"
  "allocated (start bs f) = 0"
  "trace (start bs f) = []"
  by (simp_all add: start_def)

lemma free_ptr_simps:
  "bytes_in (free_ptr ptr s) = bytes_in s"
  "field_in (free_ptr ptr s) = field_in s"
  "allocated (free_ptr ptr s) = (case ptr of None \<Rightarrow> allocated s | Some block \<Rightarrow> allocated s - 1)"
  "trace (free_ptr ptr s) = trace s @ [Call_free]"
  by (simp_all add: free_ptr_def free_def record_call_def split: option.split)

lemmas world_simps = record_call_simps free_simps free_ptr_simps calloc_simps start_simps

section \<open>The length of a packed stream\<close>

lemma string_out_length:
  "fst (string_out env ptr out_len s) = Returns bs \<Longrightarrow> 0 \<le> out_len \<and> int (length bs) = out_len"
  by (auto simp: string_out_def Let_def split: if_splits option.splits)

lemma pack_output_length:
  "fst (pack_output env ptr nw s) = Returns bs \<Longrightarrow>
     int (length bs) = s64 (c_div (s64 (nw + 1)) 2 * 8)"
  by (auto simp: pack_output_def Let_def split: if_splits option.splits dest!: string_out_length)

lemma cmps_call_cong:
  "field_in s' = field_in s \<Longrightarrow> cmps_call env d m a s' = cmps_call env d m a s"
  by (simp add: cmps_call_def Let_def)

lemma cmps_call_calloc [simp]:
  "cmps_call env d m a (snd (calloc env n s)) = cmps_call env d m a s"
  by (rule cmps_call_cong) (simp add: calloc_simps)

text \<open>The binding with the pair of \<^verbatim>\<open>calloc\<close> taken apart by projections.\<close>

lemma wgdos_pack_py_unfold:
  "wgdos_pack_py env d mdi acc s =
     (if length d < 2 then (Fault OutOfBounds, s)
      else
        (case cmps_call env d mdi acc s of
           None \<Rightarrow>
             (Fault NullPointer,
              record_call (Call_cmps_all_wrapper (calloc_ok env (size_t (s64 (d ! 0 * d ! 1)))))
                (snd (calloc env (size_t (s64 (d ! 0 * d ! 1))) s)))
         | Some (ptr, num_words, status, err_msg) \<Rightarrow>
             if status \<noteq> 0
             then (Raises ValueError err_msg,
                   free_ptr ptr
                     (record_call
                        (Call_cmps_all_wrapper (calloc_ok env (size_t (s64 (d ! 0 * d ! 1)))))
                        (snd (calloc env (size_t (s64 (d ! 0 * d ! 1))) s))))
             else pack_output env ptr num_words
                    (record_call
                       (Call_cmps_all_wrapper (calloc_ok env (size_t (s64 (d ! 0 * d ! 1)))))
                       (snd (calloc env (size_t (s64 (d ! 0 * d ! 1))) s)))))"
  by (simp add: wgdos_pack_py_def Let_def case_prod_beta calloc_simps split: option.split)

lemma wgdos_pack_py_returns:
  assumes "fst (wgdos_pack_py env d mdi acc s) = Returns packed"
  shows "\<exists>ptr num_words err_msg.
           cmps_call env d mdi acc s = Some (ptr, num_words, 0, err_msg)
         \<and> fst (pack_output env ptr num_words
                  (record_call
                     (Call_cmps_all_wrapper (calloc_ok env (size_t (s64 (d ! 0 * d ! 1)))))
                     (snd (calloc env (size_t (s64 (d ! 0 * d ! 1))) s)))) = Returns packed"
  using assms unfolding wgdos_pack_py_unfold
  by (auto split: if_splits option.splits)

lemma s64_times_8: "s64 (k * 8) mod 8 = 0"
proof -
  have "(2::int) ^ 63 = 8 * 2 ^ 60" "(2::int) ^ 64 = 8 * 2 ^ 61"
    by simp_all
  then show ?thesis
    unfolding s64_def
    by (metis (no_types, opaque_lifting) mod_mod_cancel dvd_triv_left mod_diff_right_eq
        mod_mult_self1_is_0 mod_add_right_eq add.right_neutral mult.commute diff_zero)
qed

lemma pad_arith:
  assumes "0 \<le> nw" "nw < 2 ^ 60"
  shows "s64 (c_div (s64 (nw + 1)) 2 * 8) = 4 * nw + (if odd nw then 4 else 0)"
proof -
  have a: "s64 (nw + 1) = nw + 1"
    using assms by (simp add: s64_def)
  have b: "c_div (nw + 1) 2 = (nw + 1) div 2"
    using assms by (simp add: c_div_def)
  have c: "s64 ((nw + 1) div 2 * 8) = (nw + 1) div 2 * 8"
    using assms by (simp add: s64_def)
  have d: "(nw + 1) div 2 * 8 = 4 * nw + (if odd nw then 4 else 0)"
    by presburger
  show ?thesis
    using a b c d by simp
qed

text \<open>
  C7. Every byte string that \<open>wgdos_pack_py\<close> returns has a length that is a multiple of
  8: the count of 32-bit words reported by the packing routine is rounded up to 64-bit words
  before the bytes are taken. The routine has then returned with status 0, and for a
  count \<open>num_words\<close> between 0 and \<open>2 ^ 60\<close> the length is \<open>4 * num_words\<close> bytes when
  the count is even and four padding bytes more when it is odd.
\<close>

theorem pack_length_whole_words:
  assumes "fst (wgdos_pack_py env dims_in mdi accuracy (start bs field)) = Returns packed"
  shows "length packed mod 8 = 0 \<and>
         (\<exists>ptr num_words err_msg.
            cmps_call env dims_in mdi accuracy (start bs field) = Some (ptr, num_words, 0, err_msg)
          \<and> (0 \<le> num_words \<and> num_words < 2 ^ 60 \<longrightarrow>
               int (length packed) = 4 * num_words + (if odd num_words then 4 else 0)))"
proof -
  from wgdos_pack_py_returns [OF assms] obtain ptr nw msg s2 where
    k: "cmps_call env dims_in mdi accuracy (start bs field) = Some (ptr, nw, 0, msg)"
    and r: "fst (pack_output env ptr nw s2) = Returns packed"
    by blast
  have len: "int (length packed) = s64 (c_div (s64 (nw + 1)) 2 * 8)"
    using r by (rule pack_output_length)
  have "int (length packed) mod 8 = 0"
    unfolding len by (rule s64_times_8)
  then have "length packed mod 8 = 0"
    by presburger
  moreover have "0 \<le> nw \<and> nw < 2 ^ 60 \<longrightarrow>
      int (length packed) = 4 * nw + (if odd nw then 4 else 0)"
    unfolding len using pad_arith by blast
  ultimately show ?thesis
    using k by blast
qed

theorem pack_length_whole_words_witness:
  "fst (wgdos_pack_py le_host [1, 5] missing 0 (start [] (replicate 5 missing))) =
     Returns
       [0, 0, 0, 0, 0, 0, 0, 0, 0, 0, 0, 0, 0, 0, 0, 5, 0, 0, 0, 0, 0, 0, 0, 1,
        0, 0, 0, 0, 0, 0, 0, 1, 0, 0, 0, 0, 0, 0, 0, 0]
   \<and> cmps_call le_host [1, 5] missing 0 (start [] (replicate 5 missing)) =
       Some (Some [0, 0, 0, 0, 0, 0, 0, 0, 5, 0, 0, 0, 0, 0, 0, 0, 1, 0, 0, 0, 0, 0, 0, 0,
                   1, 0, 0, 0, 0, 0, 0, 0, 0, 0, 0, 0, 0, 0, 0, 0], 10, 0, [])
   \<and> (40::nat) mod 8 = 0
   \<and> (40::int) = 4 * 10 + (if odd (10::int) then 4 else 0)"
proof -
  have r: "fst (wgdos_pack_py le_host [1, 5] missing 0 (start [] (replicate 5 missing))) =
     Returns
       [0, 0, 0, 0, 0, 0, 0, 0, 0, 0, 0, 0, 0, 0, 0, 5, 0, 0, 0, 0, 0, 0, 0, 1,
        0, 0, 0, 0, 0, 0, 0, 1, 0, 0, 0, 0, 0, 0, 0, 0]"
    by code_simp
  have n: "cmps_call le_host [1, 5] missing 0 (start [] (replicate 5 missing)) =
       Some (Some [0, 0, 0, 0, 0, 0, 0, 0, 5, 0, 0, 0, 0, 0, 0, 0, 1, 0, 0, 0, 0, 0, 0, 0,
                   1, 0, 0, 0, 0, 0, 0, 0, 0, 0, 0, 0, 0, 0, 0, 0], 10, 0, [])"
    by code_simp
  show ?thesis
    using pack_length_whole_words [OF r] r n by simp
qed

section \<open>Byte swapping of whole words\<close>

lemma length_swap_words: "length (swap_words n w bs) = length bs"
  by (induction n arbitrary: bs) auto

lemma drop_swap_words:
  "n * w \<le> length bs \<Longrightarrow> drop (n * w) (swap_words n w bs) = drop (n * w) bs"
proof (induction n arbitrary: bs)
  case 0
  then show ?case by simp
next
  case (Suc n)
  then have w: "w \<le> length bs" and r: "n * w \<le> length (drop w bs)"
    by simp_all
  have "drop (Suc n * w) (swap_words (Suc n) w bs) = drop (n * w) (swap_words n w (drop w bs))"
    using w by (simp add: add.commute)
  also have "\<dots> = drop (n * w) (drop w bs)"
    using r by (rule Suc.IH)
  also have "\<dots> = drop (Suc n * w) bs"
    by (simp add: add.commute)
  finally show ?case .
qed

lemma word_of_swap_words:
  "n * w \<le> length bs \<Longrightarrow> i < n \<Longrightarrow>
     take w (drop (i * w) (swap_words n w bs)) = rev (take w (drop (i * w) bs))"
proof (induction n arbitrary: bs i)
  case 0
  then show ?case by simp
next
  case (Suc n)
  then have w: "w \<le> length bs" and r: "n * w \<le> length (drop w bs)"
    by simp_all
  show ?case
  proof (cases i)
    case 0
    then show ?thesis using w by simp
  next
    case (Suc j)
    then have j: "j < n" using Suc.prems by simp
    have "take w (drop (i * w) (swap_words (Suc n) w bs)) =
          take w (drop (j * w) (swap_words n w (drop w bs)))"
      using w Suc by (simp add: add.commute)
    also have "\<dots> = rev (take w (drop (j * w) (drop w bs)))"
      using r j by (rule Suc.IH)
    also have "\<dots> = rev (take w (drop (i * w) bs))"
      using Suc by (simp add: add.commute)
    finally show ?thesis .
  qed
qed

lemma swap_words_fixed:
  "n * w \<le> length bs \<Longrightarrow>
     swap_words n w bs = bs \<longleftrightarrow> (\<forall>i<n. rev (take w (drop (i * w) bs)) = take w (drop (i * w) bs))"
proof (induction n arbitrary: bs)
  case 0
  then show ?case by simp
next
  case (Suc n)
  then have w: "w \<le> length bs" and r: "n * w \<le> length (drop w bs)"
    by simp_all
  have split: "swap_words (Suc n) w bs = bs \<longleftrightarrow>
      rev (take w bs) = take w bs \<and> swap_words n w (drop w bs) = drop w bs"
  proof -
    have "swap_words (Suc n) w bs = bs \<longleftrightarrow>
        rev (take w bs) @ swap_words n w (drop w bs) = take w bs @ drop w bs"
      by simp
    also have "\<dots> \<longleftrightarrow> rev (take w bs) = take w bs \<and> swap_words n w (drop w bs) = drop w bs"
      by (rule append_eq_append_conv) simp
    finally show ?thesis .
  qed
  have ih: "swap_words n w (drop w bs) = drop w bs \<longleftrightarrow>
      (\<forall>i<n. rev (take w (drop (Suc i * w) bs)) = take w (drop (Suc i * w) bs))"
    using Suc.IH [OF r] by (simp add: add.commute)
  show ?case
    unfolding split ih
    by (auto simp: less_Suc_eq_0_disj)
qed

lemma whole_words: "c_div (int n) 8 = int (n div 8)"
  by (cases "n = 0") (simp_all add: c_div_def zdiv_int)

lemma pio_byteswap_spec_whole_words:
  "pio_byteswap_spec bs (c_div (int (length bs)) 8) 8 = (0, swap_words (length bs div 8) 8 bs)"
  by (simp add: pio_byteswap_spec_def whole_words)


text \<open>
  Where each byte goes: a byte of a whole word to the mirrored place in its word, a byte
  behind the last whole word nowhere.
\<close>

lemma nth_swap_words:
  assumes "n * 8 \<le> length bs" and "i < length bs"
  shows "swap_words n 8 bs ! i =
           (if i < 8 * n then bs ! (8 * (i div 8) + (7 - i mod 8)) else bs ! i)"
proof (cases "i < 8 * n")
  case True
  let ?j = "i div 8" and ?r = "i mod 8"
  have j: "?j < n"
    using True by (simp add: div_less_iff_less_mult mult.commute)
  have r: "?r < 8"
    by simp
  have fit: "8 * ?j + 8 \<le> length bs"
    using j assms(1) by linarith
  have len: "length (take 8 (drop (8 * ?j) bs)) = 8"
    using fit by simp
  have "swap_words n 8 bs ! i = drop (8 * ?j) (swap_words n 8 bs) ! ?r"
    using assms(2) by (simp add: length_swap_words)
  also have "\<dots> = take 8 (drop (8 * ?j) (swap_words n 8 bs)) ! ?r"
    using r by simp
  also have "\<dots> = rev (take 8 (drop (8 * ?j) bs)) ! ?r"
    using word_of_swap_words [OF assms(1) j] by (simp add: mult.commute)
  also have "\<dots> = take 8 (drop (8 * ?j) bs) ! (7 - ?r)"
    using r len by (simp add: rev_nth)
  also have "\<dots> = bs ! (8 * ?j + (7 - ?r))"
    using fit by simp
  finally show ?thesis
    using True by simp
next
  case False
  then have "8 * n \<le> i"
    by simp
  then obtain k where k: "i = n * 8 + k"
    by (metis le_Suc_ex mult.commute)
  have "swap_words n 8 bs ! i = drop (n * 8) (swap_words n 8 bs) ! k"
    using assms k by (simp add: length_swap_words)
  also have "\<dots> = drop (n * 8) bs ! k"
    using drop_swap_words [OF assms(1)] by simp
  also have "\<dots> = bs ! i"
    using assms k by simp
  finally show ?thesis
    using False by simp
qed

section \<open>What a call leaves in the caller's memory\<close>

lemma unpack_field_bytes_in: "bytes_in (snd (unpack_field env n mdi s)) = bytes_in s"
  by (simp add: unpack_field_def Let_def case_prod_beta world_simps)

lemma unpack_field_field_in: "field_in (snd (unpack_field env n mdi s)) = field_in s"
  by (simp add: unpack_field_def Let_def case_prod_beta world_simps)

lemma wgdos_unpack_py_bytes_in:
  "bytes_in (snd (wgdos_unpack_py env mdi s)) =
     (if get_machine_endianism env = littleEndian
      then snd (pio_byteswap env (bytes_in s) (c_div (int (length (bytes_in s))) 8) 8)
      else bytes_in s)"
  by (simp add: wgdos_unpack_py_def Let_def case_prod_beta world_simps unpack_field_bytes_in)

lemma wgdos_unpack_py_field_in: "field_in (snd (wgdos_unpack_py env mdi s)) = field_in s"
  by (simp add: wgdos_unpack_py_def Let_def case_prod_beta world_simps unpack_field_field_in)

lemma string_out_frame:
  "bytes_in (snd (string_out env p n s)) = bytes_in s"
  "field_in (snd (string_out env p n s)) = field_in s"
  by (simp_all add: string_out_def Let_def world_simps split: option.split)

lemma pack_output_frame:
  "bytes_in (snd (pack_output env c nw s)) = bytes_in s"
  "field_in (snd (pack_output env c nw s)) = field_in s"
  by (simp_all add: pack_output_def Let_def world_simps string_out_frame
      split: option.split prod.split)

lemma wgdos_pack_py_frame:
  "bytes_in (snd (wgdos_pack_py env d mdi acc s)) = bytes_in s"
  "field_in (snd (wgdos_pack_py env d mdi acc s)) = field_in s"
  by (simp_all add: wgdos_pack_py_unfold world_simps pack_output_frame
      split: option.split prod.split)

text \<open>
  C4, as amended. No call of \<open>wgdos_pack_py\<close>, failing or not, changes the caller's field
  or byte string, and no call of \<open>wgdos_unpack_py\<close> changes the caller's field. On a
  big-endian machine a call of \<open>wgdos_unpack_py\<close>, failing or not, leaves the caller's
  bytes as they were. On a little-endian machine it leaves them as \<^verbatim>\<open>pio_byteswap\<close> left them
  when called on the whole words of the buffer: the swap is made in place and is not undone
  when the call fails.
\<close>

theorem input_after_call:
  "(get_machine_endianism env = bigEndian \<longrightarrow>
      bytes_in (snd (wgdos_unpack_py env mdi (start bs field))) = bs)
   \<and> (get_machine_endianism env = littleEndian \<longrightarrow>
      bytes_in (snd (wgdos_unpack_py env mdi (start bs field))) =
        snd (pio_byteswap env bs (int (length bs div 8)) 8))
   \<and> field_in (snd (wgdos_unpack_py env mdi (start bs field))) = field
   \<and> bytes_in (snd (wgdos_pack_py env dims_in mdi accuracy (start bs field))) = bs
   \<and> field_in (snd (wgdos_pack_py env dims_in mdi accuracy (start bs field))) = field"
  by (simp add: wgdos_unpack_py_bytes_in wgdos_unpack_py_field_in wgdos_pack_py_frame
      start_simps whole_words)

theorem input_after_call_witness:
  "bytes_in (snd (wgdos_unpack_py be_host missing (start stream_1x2 []))) = stream_1x2
   \<and> bytes_in (snd (wgdos_unpack_py le_host missing (start stream_1x2 []))) =
       [0, 0, 0, 0, 0, 0, 0, 0,
        2, 0, 0, 0, 0, 0, 0, 0,
        1, 0, 0, 0, 0, 0, 0, 0,
        1, 0, 0, 0, 0, 0, 0, 0,
        0, 0, 0, 0, 0, 0, 0, 0]"
proof -
  have b: "get_machine_endianism be_host = bigEndian"
    by (simp add: be_host_def)
  have l: "get_machine_endianism le_host = littleEndian"
    by (simp add: le_host_def)
  have s: "snd (pio_byteswap le_host stream_1x2 (int (length stream_1x2 div 8)) 8) =
       [0, 0, 0, 0, 0, 0, 0, 0,
        2, 0, 0, 0, 0, 0, 0, 0,
        1, 0, 0, 0, 0, 0, 0, 0,
        1, 0, 0, 0, 0, 0, 0, 0,
        0, 0, 0, 0, 0, 0, 0, 0]"
    by code_simp
  show ?thesis
    using input_after_call [of be_host missing stream_1x2 "[]"]
      input_after_call [of le_host missing stream_1x2 "[]"] b l s
    by simp
qed

text \<open>
  C4 as stated fails. On a little-endian machine the 32 bytes below (accuracy 1, no columns,
  no rows) are refused by the header reader, and the caller's bytes after the failed call are
  the swapped ones.
\<close>

theorem failed_unpack_leaves_bytes_swapped:
  "fst (wgdos_unpack_py le_host missing
          (start [0, 0, 0, 0, 0, 0, 0, 1,
                  0, 0, 0, 0, 0, 0, 0, 0,
                  0, 0, 0, 0, 0, 0, 0, 0,
                  0, 0, 0, 0, 0, 0, 0, 0] [])) =
     Raises ValueError ''Problem reading WGDOS header''
   \<and> bytes_in (snd (wgdos_unpack_py le_host missing
          (start [0, 0, 0, 0, 0, 0, 0, 1,
                  0, 0, 0, 0, 0, 0, 0, 0,
                  0, 0, 0, 0, 0, 0, 0, 0,
                  0, 0, 0, 0, 0, 0, 0, 0] []))) =
       [1, 0, 0, 0, 0, 0, 0, 0,
        0, 0, 0, 0, 0, 0, 0, 0,
        0, 0, 0, 0, 0, 0, 0, 0,
        0, 0, 0, 0, 0, 0, 0, 0]
   \<and> bytes_in (snd (wgdos_unpack_py le_host missing
          (start [0, 0, 0, 0, 0, 0, 0, 1,
                  0, 0, 0, 0, 0, 0, 0, 0,
                  0, 0, 0, 0, 0, 0, 0, 0,
                  0, 0, 0, 0, 0, 0, 0, 0] []))) \<noteq>
       [0, 0, 0, 0, 0, 0, 0, 1,
        0, 0, 0, 0, 0, 0, 0, 0,
        0, 0, 0, 0, 0, 0, 0, 0,
        0, 0, 0, 0, 0, 0, 0, 0]"
  by code_simp

text \<open>
  C10, as amended. On a little-endian machine whose \<^verbatim>\<open>pio_byteswap\<close> reverses words as
  specified, every call of \<open>wgdos_unpack_py\<close>, failing or not, leaves in the caller's
  buffer the bytes with every whole 8-byte word reversed, and does not restore them. These
  differ from the bytes passed in exactly when some whole word is not a palindrome of bytes.
\<close>

theorem unpack_swaps_in_place:
  assumes "get_machine_endianism env = littleEndian"
    and "pio_byteswap env = pio_byteswap_spec"
  shows "bytes_in (snd (wgdos_unpack_py env mdi (start bs field))) =
           swap_words (length bs div 8) 8 bs
     \<and> (bytes_in (snd (wgdos_unpack_py env mdi (start bs field))) \<noteq> bs \<longleftrightarrow>
          (\<exists>i < length bs div 8. \<not> palindrome_word bs i))"
proof -
  let ?k = "length bs div 8"
  have sw: "pio_byteswap env bs (int ?k) 8 = (0, swap_words ?k 8 bs)"
    using assms(2) pio_byteswap_spec_whole_words [of bs] by (simp add: whole_words)
  have after: "bytes_in (snd (wgdos_unpack_py env mdi (start bs field))) = swap_words ?k 8 bs"
    using assms(1) sw by (simp add: wgdos_unpack_py_bytes_in world_simps whole_words)
  have le: "?k * 8 \<le> length bs"
    by simp
  have "swap_words ?k 8 bs = bs \<longleftrightarrow> (\<forall>i < ?k. palindrome_word bs i)"
    using swap_words_fixed [OF le] by (simp add: palindrome_word_def mult.commute)
  then show ?thesis
    unfolding after by blast
qed

theorem unpack_swaps_in_place_witness:
  "get_machine_endianism le_host = littleEndian
   \<and> pio_byteswap le_host = pio_byteswap_spec
   \<and> bytes_in (snd (wgdos_unpack_py le_host missing (start stream_1x2 []))) =
       swap_words (length stream_1x2 div 8) 8 stream_1x2
   \<and> \<not> palindrome_word stream_1x2 1
   \<and> bytes_in (snd (wgdos_unpack_py le_host missing (start stream_1x2 []))) \<noteq> stream_1x2"
proof -
  have l: "get_machine_endianism le_host = littleEndian"
    by (simp add: le_host_def)
  have p: "pio_byteswap le_host = pio_byteswap_spec"
    by (simp add: le_host_def)
  have n: "\<not> palindrome_word stream_1x2 1"
    by code_simp
  have k: "1 < length stream_1x2 div 8"
    by (simp add: stream_1x2_def)
  have "\<exists>i < length stream_1x2 div 8. \<not> palindrome_word stream_1x2 i"
    using n k by blast
  then show ?thesis
    using unpack_swaps_in_place [OF l p, of missing stream_1x2 "[]"] l p n by blast
qed

text \<open>
  C10 as stated fails on a word that reads the same in both byte orders: the caller's bytes
  after the call are those passed in.
\<close>

theorem palindrome_bytes_unchanged:
  "bytes_in (snd (wgdos_unpack_py le_host missing (start [1, 2, 3, 4, 4, 3, 2, 1] []))) =
     [1, 2, 3, 4, 4, 3, 2, 1]"
  by code_simp

section \<open>The order of the calls\<close>

lemma unpack_field_trace:
  "\<exists>rest. trace (snd (unpack_field env n mdi s)) =
            trace s @ Call_read_wgdos_header (bytes_in s) # rest
      \<and> (\<forall>e \<in> set rest. \<not> is_read_wgdos_header e \<and> \<not> is_pio_byteswap e)"
  by (simp add: unpack_field_def Let_def case_prod_beta world_simps)

lemma wgdos_unpack_py_trace_le:
  assumes "get_machine_endianism env = littleEndian"
  shows "\<exists>rest. trace (snd (wgdos_unpack_py env mdi (start bs field))) =
            Call_get_machine_endianism # Call_pio_byteswap (int (length bs div 8)) 8 # rest
      \<and> (\<forall>e \<in> set rest. \<not> is_pio_byteswap e)
      \<and> (\<forall>e \<in> set rest. is_read_wgdos_header e \<longrightarrow>
            e = Call_read_wgdos_header (snd (pio_byteswap env bs (int (length bs div 8)) 8)))"
proof -
  let ?sw = "pio_byteswap env bs (int (length bs div 8)) 8"
  let ?s2 = "record_call (Call_pio_byteswap (int (length bs div 8)) 8)
               ((record_call Call_get_machine_endianism (start bs field))\<lparr>bytes_in := snd ?sw\<rparr>)"
  have t2: "trace ?s2 = [Call_get_machine_endianism, Call_pio_byteswap (int (length bs div 8)) 8]"
    by (simp add: world_simps)
  have b2: "bytes_in ?s2 = snd ?sw"
    by (simp add: world_simps)
  show ?thesis
  proof (cases "fst ?sw = 0")
    case False
    then have "snd (wgdos_unpack_py env mdi (start bs field)) = ?s2"
      using assms by (simp add: wgdos_unpack_py_def Let_def case_prod_beta world_simps whole_words)
    then show ?thesis using t2 by simp
  next
    case True
    then have u: "snd (wgdos_unpack_py env mdi (start bs field)) =
        snd (unpack_field env (int (length bs)) mdi ?s2)"
      using assms by (simp add: wgdos_unpack_py_def Let_def case_prod_beta world_simps whole_words)
    obtain rest where r: "trace (snd (unpack_field env (int (length bs)) mdi ?s2)) =
          trace ?s2 @ Call_read_wgdos_header (bytes_in ?s2) # rest"
        "\<forall>e \<in> set rest. \<not> is_read_wgdos_header e \<and> \<not> is_pio_byteswap e"
      using unpack_field_trace [of env "int (length bs)" mdi ?s2] by blast
    show ?thesis
      unfolding u r(1) t2 b2 using r(2) by auto
  qed
qed

lemma wgdos_unpack_py_trace_be:
  assumes "get_machine_endianism env = bigEndian"
  shows "\<exists>rest. trace (snd (wgdos_unpack_py env mdi (start bs field))) =
            Call_get_machine_endianism # Call_read_wgdos_header bs # rest
      \<and> (\<forall>e \<in> set rest. \<not> is_read_wgdos_header e \<and> \<not> is_pio_byteswap e)"
proof -
  let ?s1 = "record_call Call_get_machine_endianism (start bs field)"
  have u: "snd (wgdos_unpack_py env mdi (start bs field)) =
      snd (unpack_field env (int (length bs)) mdi ?s1)"
    using assms by (simp add: wgdos_unpack_py_def Let_def world_simps)
  obtain rest where r: "trace (snd (unpack_field env (int (length bs)) mdi ?s1)) =
        trace ?s1 @ Call_read_wgdos_header (bytes_in ?s1) # rest"
      "\<forall>e \<in> set rest. \<not> is_read_wgdos_header e \<and> \<not> is_pio_byteswap e"
    using unpack_field_trace [of env "int (length bs)" mdi ?s1] by blast
  show ?thesis
    unfolding u r(1) using r(2) by (auto simp: world_simps)
qed

lemma wgdos_unpack_py_reads_header:
  assumes "get_machine_endianism env = littleEndian"
    and "fst (pio_byteswap env bs (int (length bs div 8)) 8) = 0"
  shows "\<exists>rest. trace (snd (wgdos_unpack_py env mdi (start bs field))) =
            Call_get_machine_endianism # Call_pio_byteswap (int (length bs div 8)) 8 #
            Call_read_wgdos_header (snd (pio_byteswap env bs (int (length bs div 8)) 8)) # rest"
proof -
  let ?sw = "pio_byteswap env bs (int (length bs div 8)) 8"
  let ?s2 = "record_call (Call_pio_byteswap (int (length bs div 8)) 8)
               ((record_call Call_get_machine_endianism (start bs field))\<lparr>bytes_in := snd ?sw\<rparr>)"
  have u: "snd (wgdos_unpack_py env mdi (start bs field)) =
      snd (unpack_field env (int (length bs)) mdi ?s2)"
    using assms by (simp add: wgdos_unpack_py_def Let_def case_prod_beta world_simps whole_words)
  obtain rest where "trace (snd (unpack_field env (int (length bs)) mdi ?s2)) =
        trace ?s2 @ Call_read_wgdos_header (bytes_in ?s2) # rest"
    using unpack_field_trace [of env "int (length bs)" mdi ?s2] by blast
  then show ?thesis
    unfolding u by (simp add: world_simps)
qed

lemma wgdos_unpack_py_header_bytes:
  assumes "get_machine_endianism env = littleEndian"
    and "pio_byteswap env = pio_byteswap_spec"
  shows "\<exists>given. Call_read_wgdos_header given
              \<in> set (trace (snd (wgdos_unpack_py env mdi (start bs field))))
          \<and> length given = length bs
          \<and> (\<forall>i < length bs.
                given ! i =
                  (if i < 8 * (length bs div 8) then bs ! (8 * (i div 8) + (7 - i mod 8))
                   else bs ! i))"
proof -
  let ?k = "length bs div 8"
  have sw: "pio_byteswap env bs (int ?k) 8 = (0, swap_words ?k 8 bs)"
    using assms(2) pio_byteswap_spec_whole_words [of bs] by (simp add: whole_words)
  have le: "?k * 8 \<le> length bs"
    by simp
  obtain rest where "trace (snd (wgdos_unpack_py env mdi (start bs field))) =
      Call_get_machine_endianism # Call_pio_byteswap (int ?k) 8 #
      Call_read_wgdos_header (swap_words ?k 8 bs) # rest"
    using wgdos_unpack_py_reads_header [OF assms(1), of bs mdi field] sw by auto
  then have 1: "Call_read_wgdos_header (swap_words ?k 8 bs)
      \<in> set (trace (snd (wgdos_unpack_py env mdi (start bs field))))"
    by simp
  have 2: "length (swap_words ?k 8 bs) = length bs"
    by (rule length_swap_words)
  have 3: "\<forall>i < length bs. swap_words ?k 8 bs ! i =
      (if i < 8 * ?k then bs ! (8 * (i div 8) + (7 - i mod 8)) else bs ! i)"
    using nth_swap_words [OF le] by blast
  show ?thesis
    using 1 2 3 by blast
qed

lemma unpack_field_returns:
  assumes "fst (unpack_field env n mdi s) = Returns arr"
  shows "\<exists>accuracy cols rows.
           read_wgdos_header env (bytes_in s) = (0, accuracy, cols, rows)
         \<and> dims arr = [rows, cols]"
proof -
  obtain status accuracy cols rows where
    h: "read_wgdos_header env (bytes_in s) = (status, accuracy, cols, rows)"
    by (cases "read_wgdos_header env (bytes_in s)") auto
  have "status = 0" and "dims arr = [rows, cols]"
    using assms h
    by (auto simp: unpack_field_def Let_def case_prod_beta world_simps split: if_splits)
  then show ?thesis
    using h by blast
qed

lemma unpack_field_header_refused:
  "fst (read_wgdos_header env (bytes_in s)) \<noteq> 0 \<Longrightarrow>
     fst (unpack_field env n mdi s) = Raises ValueError ''Problem reading WGDOS header''"
  by (simp add: unpack_field_def Let_def case_prod_beta)

lemma wgdos_unpack_py_returns_le:
  assumes "get_machine_endianism env = littleEndian"
    and "fst (wgdos_unpack_py env mdi (start bs field)) = Returns arr"
  shows "fst (pio_byteswap env bs (int (length bs div 8)) 8) = 0
     \<and> (\<exists>accuracy cols rows.
           read_wgdos_header env (snd (pio_byteswap env bs (int (length bs div 8)) 8)) =
             (0, accuracy, cols, rows)
         \<and> dims arr = [rows, cols])"
proof -
  let ?sw = "pio_byteswap env bs (int (length bs div 8)) 8"
  let ?s2 = "record_call (Call_pio_byteswap (int (length bs div 8)) 8)
               ((record_call Call_get_machine_endianism (start bs field))\<lparr>bytes_in := snd ?sw\<rparr>)"
  have z: "fst ?sw = 0"
  proof (rule ccontr)
    assume "fst ?sw \<noteq> 0"
    then have "fst (wgdos_unpack_py env mdi (start bs field)) =
        Raises ValueError ''Problem in byte-swapping''"
      using assms(1)
      by (simp add: wgdos_unpack_py_def Let_def case_prod_beta world_simps whole_words)
    with assms(2) show False
      by simp
  qed
  then have "fst (unpack_field env (int (length bs)) mdi ?s2) = Returns arr"
    using assms
    by (simp add: wgdos_unpack_py_def Let_def case_prod_beta world_simps whole_words)
  from unpack_field_returns [OF this] have
    "\<exists>accuracy cols rows.
       read_wgdos_header env (snd ?sw) = (0, accuracy, cols, rows) \<and> dims arr = [rows, cols]"
    by (simp add: world_simps)
  with z show ?thesis
    by blast
qed

lemma wgdos_unpack_py_refused_le:
  assumes "get_machine_endianism env = littleEndian"
    and "fst (pio_byteswap env bs (int (length bs div 8)) 8) = 0"
    and "fst (read_wgdos_header env (snd (pio_byteswap env bs (int (length bs div 8)) 8))) \<noteq> 0"
  shows "fst (wgdos_unpack_py env mdi (start bs field)) =
           Raises ValueError ''Problem reading WGDOS header''"
proof -
  let ?sw = "pio_byteswap env bs (int (length bs div 8)) 8"
  let ?s2 = "record_call (Call_pio_byteswap (int (length bs div 8)) 8)
               ((record_call Call_get_machine_endianism (start bs field))\<lparr>bytes_in := snd ?sw\<rparr>)"
  have "fst (wgdos_unpack_py env mdi (start bs field)) =
      fst (unpack_field env (int (length bs)) mdi ?s2)"
    using assms(1,2)
    by (simp add: wgdos_unpack_py_def Let_def case_prod_beta world_simps whole_words)
  moreover have "fst (read_wgdos_header env (bytes_in ?s2)) \<noteq> 0"
    using assms(3) by (simp add: world_simps)
  ultimately show ?thesis
    by (simp add: unpack_field_header_refused)
qed

lemma wgdos_unpack_py_returns_be:
  assumes "get_machine_endianism env = bigEndian"
    and "fst (wgdos_unpack_py env mdi (start bs field)) = Returns arr"
  shows "\<exists>accuracy cols rows.
           read_wgdos_header env bs = (0, accuracy, cols, rows) \<and> dims arr = [rows, cols]"
proof -
  let ?s1 = "record_call Call_get_machine_endianism (start bs field)"
  have "fst (unpack_field env (int (length bs)) mdi ?s1) = Returns arr"
    using assms by (simp add: wgdos_unpack_py_def Let_def world_simps)
  from unpack_field_returns [OF this] show ?thesis
    by (simp add: world_simps)
qed

lemma string_out_trace:
  "\<exists>post. trace (snd (string_out env p n s)) = trace s @ Call_PyString_FromStringAndSize n # post
      \<and> (post = [] \<or> post = [Call_free])"
  by (simp add: string_out_def Let_def world_simps split: option.split)

lemma pack_output_trace:
  "\<exists>post. trace (snd (pack_output env ptr nw s)) =
       trace s @ Call_get_machine_endianism #
         (if get_machine_endianism env = littleEndian
          then [Call_pio_byteswap (c_div (s64 (nw + 1)) 2) 8] else []) @ post
     \<and> (\<forall>e \<in> set post.
          e = Call_free \<or> e = Call_PyString_FromStringAndSize (s64 (c_div (s64 (nw + 1)) 2 * 8)))"
proof -
  let ?n = "c_div (s64 (nw + 1)) 2"
  let ?s1 = "record_call Call_get_machine_endianism s"
  let ?s2 = "record_call (Call_pio_byteswap ?n 8) ?s1"
  have so: "\<And>p s'. \<exists>post. trace (snd (string_out env p (s64 (?n * 8)) s')) =
        trace s' @ post
      \<and> (\<forall>e \<in> set post. e = Call_free \<or> e = Call_PyString_FromStringAndSize (s64 (?n * 8)))"
  proof -
    fix p s'
    from string_out_trace [of env p "s64 (?n * 8)" s'] obtain post where
      "trace (snd (string_out env p (s64 (?n * 8)) s')) =
         trace s' @ Call_PyString_FromStringAndSize (s64 (?n * 8)) # post"
      and "post = [] \<or> post = [Call_free]"
      by blast
    then show "\<exists>post. trace (snd (string_out env p (s64 (?n * 8)) s')) = trace s' @ post
      \<and> (\<forall>e \<in> set post. e = Call_free \<or> e = Call_PyString_FromStringAndSize (s64 (?n * 8)))"
      by auto
  qed
  show ?thesis
  proof (cases "get_machine_endianism env = littleEndian")
    case le: True
    show ?thesis
    proof (cases "byteswap_out env ptr ?n")
      case None
      then have "snd (pack_output env ptr nw s) = ?s2"
        using le by (simp add: pack_output_def Let_def)
      then show ?thesis using le by (simp add: world_simps)
    next
      case (Some r)
      show ?thesis
      proof (cases "fst r = 0")
        case False
        then have "snd (pack_output env ptr nw s) = ?s2"
          using le Some by (simp add: pack_output_def Let_def case_prod_beta)
        then show ?thesis using le by (simp add: world_simps)
      next
        case True
        then have u: "snd (pack_output env ptr nw s) =
            snd (string_out env (snd r) (s64 (?n * 8)) ?s2)"
          using le Some by (simp add: pack_output_def Let_def case_prod_beta)
        from so [of "snd r" ?s2] show ?thesis
          unfolding u using le by (auto simp: world_simps)
      qed
    qed
  next
    case be: False
    then have u: "snd (pack_output env ptr nw s) = snd (string_out env ptr (s64 (?n * 8)) ?s1)"
      by (simp add: pack_output_def Let_def)
    from so [of ptr ?s1] show ?thesis
      unfolding u using be by (auto simp: world_simps)
  qed
qed

lemma string_out_returns:
  "fst (string_out env (Some block) n s) = Returns packed \<Longrightarrow> packed = take (nat n) block"
  by (auto simp: string_out_def Let_def split: if_splits)

lemma pack_output_returns_le:
  assumes "get_machine_endianism env = littleEndian"
    and "fst (pack_output env (Some block) nw s) = Returns packed"
  shows "fst (pio_byteswap env block (c_div (s64 (nw + 1)) 2) 8) = 0
     \<and> packed = take (nat (s64 (c_div (s64 (nw + 1)) 2 * 8)))
                  (snd (pio_byteswap env block (c_div (s64 (nw + 1)) 2) 8))"
  using assms
  by (auto simp: pack_output_def byteswap_out_def Let_def case_prod_beta
      split: if_splits dest: string_out_returns)

lemma pack_output_returns_be:
  assumes "get_machine_endianism env = bigEndian"
    and "fst (pack_output env (Some block) nw s) = Returns packed"
  shows "packed = take (nat (s64 (c_div (s64 (nw + 1)) 2 * 8))) block"
  using assms
  by (auto simp: pack_output_def Let_def dest: string_out_returns)

lemma wgdos_pack_py_trace:
  assumes "2 \<le> length d"
    and "cmps_call env d mdi acc (start bs field) = Some (ptr, nw, 0, msg)"
  shows "\<exists>post. trace (snd (wgdos_pack_py env d mdi acc (start bs field))) =
       [Call_calloc (size_t (s64 (d ! 0 * d ! 1))),
        Call_cmps_all_wrapper (calloc_ok env (size_t (s64 (d ! 0 * d ! 1)))),
        Call_get_machine_endianism]
       @ (if get_machine_endianism env = littleEndian
          then [Call_pio_byteswap (c_div (s64 (nw + 1)) 2) 8] else [])
       @ post
     \<and> (\<forall>e \<in> set post.
          e = Call_free \<or> e = Call_PyString_FromStringAndSize (s64 (c_div (s64 (nw + 1)) 2 * 8)))"
proof -
  let ?n = "size_t (s64 (d ! 0 * d ! 1))"
  let ?s2 = "record_call (Call_cmps_all_wrapper (calloc_ok env ?n))
               (snd (calloc env ?n (start bs field)))"
  have u: "snd (wgdos_pack_py env d mdi acc (start bs field)) =
      snd (pack_output env ptr nw ?s2)"
    using assms by (simp add: wgdos_pack_py_unfold)
  have t2: "trace ?s2 = [Call_calloc ?n, Call_cmps_all_wrapper (calloc_ok env ?n)]"
    by (simp add: world_simps)
  from pack_output_trace [of env ptr nw ?s2]
  show ?thesis unfolding u t2 by auto
qed

lemma wgdos_pack_py_trace_early:
  assumes "length d < 2 \<or> cmps_call env d mdi acc (start bs field) = None
      \<or> (cmps_call env d mdi acc (start bs field) = Some (ptr, nw, st, msg) \<and> st \<noteq> 0)"
  shows "\<forall>e \<in> set (trace (snd (wgdos_pack_py env d mdi acc (start bs field)))).
           \<not> is_pio_byteswap e"
  using assms by (auto simp: wgdos_pack_py_unfold world_simps)

lemma wgdos_pack_py_returns_le:
  assumes "get_machine_endianism env = littleEndian"
    and "cmps_call env d mdi acc s = Some (Some block, nw, 0, msg)"
    and "fst (wgdos_pack_py env d mdi acc s) = Returns packed"
  shows "fst (pio_byteswap env block (c_div (s64 (nw + 1)) 2) 8) = 0
     \<and> packed = take (nat (s64 (c_div (s64 (nw + 1)) 2 * 8)))
                  (snd (pio_byteswap env block (c_div (s64 (nw + 1)) 2) 8))"
proof -
  from wgdos_pack_py_returns [OF assms(3)] assms(2) obtain s2 where
    "fst (pack_output env (Some block) nw s2) = Returns packed"
    by auto
  then show ?thesis
    using assms(1) by (rule pack_output_returns_le [rotated])
qed

lemma wgdos_pack_py_returns_be:
  assumes "get_machine_endianism env = bigEndian"
    and "cmps_call env d mdi acc s = Some (Some block, nw, 0, msg)"
    and "fst (wgdos_pack_py env d mdi acc s) = Returns packed"
  shows "packed = take (nat (s64 (c_div (s64 (nw + 1)) 2 * 8))) block"
proof -
  from wgdos_pack_py_returns [OF assms(3)] assms(2) obtain s2 where
    "fst (pack_output env (Some block) nw s2) = Returns packed"
    by auto
  then show ?thesis
    using assms(1) by (rule pack_output_returns_be [rotated])
qed

text \<open>
  C2, as amended. On a little-endian machine every call of \<open>wgdos_unpack_py\<close> starts with
  the test of the byte order and the call of \<^verbatim>\<open>pio_byteswap\<close> on the buffer from its first
  byte, header words included, for \<open>length div 8\<close> words of 8 bytes. No other swap
  follows, the header is read only after it and only from the swapped bytes, and it is read
  whenever the swap reports no failure. With the word swap of the specification the bytes
  the header reader is given are those of the buffer with every byte of a whole word moved
  to the mirrored place in its word and the \<open>length mod 8\<close> bytes behind the last whole
  word left where they were: the whole buffer is normalised exactly when its length is a
  whole number of words. On a big-endian machine the step does nothing and the header is
  read from the bytes as they came. The header values the call goes by are those of the
  bytes in the order of the machine: a returned array has the rows and columns read from
  them, and a header refused in them fails the call.

  In every call of \<open>wgdos_pack_py\<close> in which the packing routine returns with status 0,
  the calls are \<^verbatim>\<open>calloc\<close>, the packing routine, the test of the byte order and, on a
  little-endian machine, \<^verbatim>\<open>pio_byteswap\<close> for the rounded count of words; nothing follows
  but the making of the Python string and \<^verbatim>\<open>free\<close>. The bytes returned are the first
  \<open>out_len\<close> bytes of the packed buffer as \<^verbatim>\<open>pio_byteswap\<close> left it, which reported no
  failure (on a big-endian machine, of the packed buffer as the packing routine left it).
  A call that does not get so far makes no call of \<^verbatim>\<open>pio_byteswap\<close>.
\<close>

theorem byteswap_order:
  "(get_machine_endianism env = littleEndian \<longrightarrow>
      (\<exists>rest. trace (snd (wgdos_unpack_py env mdi (start bs field))) =
            Call_get_machine_endianism # Call_pio_byteswap (int (length bs div 8)) 8 # rest
        \<and> (\<forall>e \<in> set rest. \<not> is_pio_byteswap e)
        \<and> (\<forall>e \<in> set rest. is_read_wgdos_header e \<longrightarrow>
              e = Call_read_wgdos_header (snd (pio_byteswap env bs (int (length bs div 8)) 8)))
        \<and> (fst (pio_byteswap env bs (int (length bs div 8)) 8) = 0 \<longrightarrow>
              Call_read_wgdos_header (snd (pio_byteswap env bs (int (length bs div 8)) 8))
                \<in> set rest)))
   \<and> (get_machine_endianism env = littleEndian \<and> pio_byteswap env = pio_byteswap_spec \<longrightarrow>
      (\<exists>given. Call_read_wgdos_header given
              \<in> set (trace (snd (wgdos_unpack_py env mdi (start bs field))))
          \<and> length given = length bs
          \<and> (\<forall>i < length bs.
                given ! i =
                  (if i < 8 * (length bs div 8) then bs ! (8 * (i div 8) + (7 - i mod 8))
                   else bs ! i))))
   \<and> (get_machine_endianism env = bigEndian \<longrightarrow>
      (\<exists>rest. trace (snd (wgdos_unpack_py env mdi (start bs field))) =
            Call_get_machine_endianism # Call_read_wgdos_header bs # rest
        \<and> (\<forall>e \<in> set rest. \<not> is_read_wgdos_header e \<and> \<not> is_pio_byteswap e)))
   \<and> (get_machine_endianism env = littleEndian
        \<and> fst (wgdos_unpack_py env mdi (start bs field)) = Returns arr \<longrightarrow>
      fst (pio_byteswap env bs (int (length bs div 8)) 8) = 0
      \<and> (\<exists>accuracy cols rows.
            read_wgdos_header env (snd (pio_byteswap env bs (int (length bs div 8)) 8)) =
              (0, accuracy, cols, rows)
          \<and> dims arr = [rows, cols]))
   \<and> (get_machine_endianism env = littleEndian
        \<and> fst (pio_byteswap env bs (int (length bs div 8)) 8) = 0
        \<and> fst (read_wgdos_header env (snd (pio_byteswap env bs (int (length bs div 8)) 8))) \<noteq> 0
        \<longrightarrow>
      fst (wgdos_unpack_py env mdi (start bs field)) =
        Raises ValueError ''Problem reading WGDOS header'')
   \<and> (get_machine_endianism env = bigEndian
        \<and> fst (wgdos_unpack_py env mdi (start bs field)) = Returns arr \<longrightarrow>
      (\<exists>accuracy cols rows.
         read_wgdos_header env bs = (0, accuracy, cols, rows) \<and> dims arr = [rows, cols]))
   \<and> (2 \<le> length d \<and> cmps_call env d mdi acc (start bs field) = Some (ptr, nw, 0, msg) \<longrightarrow>
      (\<exists>post. trace (snd (wgdos_pack_py env d mdi acc (start bs field))) =
         [Call_calloc (size_t (s64 (d ! 0 * d ! 1))),
          Call_cmps_all_wrapper (calloc_ok env (size_t (s64 (d ! 0 * d ! 1)))),
          Call_get_machine_endianism]
         @ (if get_machine_endianism env = littleEndian
            then [Call_pio_byteswap (c_div (s64 (nw + 1)) 2) 8] else [])
         @ post
       \<and> (\<forall>e \<in> set post.
            e = Call_free
            \<or> e = Call_PyString_FromStringAndSize (s64 (c_div (s64 (nw + 1)) 2 * 8)))))
   \<and> (get_machine_endianism env = littleEndian
        \<and> cmps_call env d mdi acc (start bs field) = Some (Some block, nw, 0, msg)
        \<and> fst (wgdos_pack_py env d mdi acc (start bs field)) = Returns packed \<longrightarrow>
      fst (pio_byteswap env block (c_div (s64 (nw + 1)) 2) 8) = 0
      \<and> packed = take (nat (s64 (c_div (s64 (nw + 1)) 2 * 8)))
                   (snd (pio_byteswap env block (c_div (s64 (nw + 1)) 2) 8)))
   \<and> (get_machine_endianism env = bigEndian
        \<and> cmps_call env d mdi acc (start bs field) = Some (Some block, nw, 0, msg)
        \<and> fst (wgdos_pack_py env d mdi acc (start bs field)) = Returns packed \<longrightarrow>
      packed = take (nat (s64 (c_div (s64 (nw + 1)) 2 * 8))) block)
   \<and> (length d < 2 \<or> cmps_call env d mdi acc (start bs field) = None
        \<or> (cmps_call env d mdi acc (start bs field) = Some (ptr', nw', st, msg') \<and> st \<noteq> 0) \<longrightarrow>
      (\<forall>e \<in> set (trace (snd (wgdos_pack_py env d mdi acc (start bs field)))).
         \<not> is_pio_byteswap e))"
proof (intro conjI impI)
  let ?sw = "pio_byteswap env bs (int (length bs div 8)) 8"
  assume le: "get_machine_endianism env = littleEndian"
  from wgdos_unpack_py_trace_le [OF le, of mdi bs field] obtain rest where
    t: "trace (snd (wgdos_unpack_py env mdi (start bs field))) =
          Call_get_machine_endianism # Call_pio_byteswap (int (length bs div 8)) 8 # rest"
    and a: "\<forall>e \<in> set rest. \<not> is_pio_byteswap e"
    and b: "\<forall>e \<in> set rest. is_read_wgdos_header e \<longrightarrow> e = Call_read_wgdos_header (snd ?sw)"
    by blast
  have c: "fst ?sw = 0 \<longrightarrow> Call_read_wgdos_header (snd ?sw) \<in> set rest"
  proof
    assume "fst ?sw = 0"
    from wgdos_unpack_py_reads_header [OF le this, of mdi field] t
    show "Call_read_wgdos_header (snd ?sw) \<in> set rest"
      by auto
  qed
  show "\<exists>rest. trace (snd (wgdos_unpack_py env mdi (start bs field))) =
            Call_get_machine_endianism # Call_pio_byteswap (int (length bs div 8)) 8 # rest
        \<and> (\<forall>e \<in> set rest. \<not> is_pio_byteswap e)
        \<and> (\<forall>e \<in> set rest. is_read_wgdos_header e \<longrightarrow> e = Call_read_wgdos_header (snd ?sw))
        \<and> (fst ?sw = 0 \<longrightarrow> Call_read_wgdos_header (snd ?sw) \<in> set rest)"
    using t a b c by blast
next
  assume "get_machine_endianism env = littleEndian \<and> pio_byteswap env = pio_byteswap_spec"
  then show "\<exists>given. Call_read_wgdos_header given
              \<in> set (trace (snd (wgdos_unpack_py env mdi (start bs field))))
          \<and> length given = length bs
          \<and> (\<forall>i < length bs.
                given ! i =
                  (if i < 8 * (length bs div 8) then bs ! (8 * (i div 8) + (7 - i mod 8))
                   else bs ! i))"
    using wgdos_unpack_py_header_bytes [of env mdi bs field] by blast
next
  assume "get_machine_endianism env = bigEndian"
  then show "\<exists>rest. trace (snd (wgdos_unpack_py env mdi (start bs field))) =
            Call_get_machine_endianism # Call_read_wgdos_header bs # rest
        \<and> (\<forall>e \<in> set rest. \<not> is_read_wgdos_header e \<and> \<not> is_pio_byteswap e)"
    by (rule wgdos_unpack_py_trace_be)
next
  assume a: "get_machine_endianism env = littleEndian
        \<and> fst (wgdos_unpack_py env mdi (start bs field)) = Returns arr"
  from a show "fst (pio_byteswap env bs (int (length bs div 8)) 8) = 0"
    using wgdos_unpack_py_returns_le [of env mdi bs field arr] by blast
  from a show "\<exists>accuracy cols rows.
            read_wgdos_header env (snd (pio_byteswap env bs (int (length bs div 8)) 8)) =
              (0, accuracy, cols, rows)
          \<and> dims arr = [rows, cols]"
    using wgdos_unpack_py_returns_le [of env mdi bs field arr] by blast
next
  assume "get_machine_endianism env = littleEndian
        \<and> fst (pio_byteswap env bs (int (length bs div 8)) 8) = 0
        \<and> fst (read_wgdos_header env (snd (pio_byteswap env bs (int (length bs div 8)) 8))) \<noteq> 0"
  then show "fst (wgdos_unpack_py env mdi (start bs field)) =
        Raises ValueError ''Problem reading WGDOS header''"
    using wgdos_unpack_py_refused_le [of env bs mdi field] by blast
next
  assume "get_machine_endianism env = bigEndian
        \<and> fst (wgdos_unpack_py env mdi (start bs field)) = Returns arr"
  then show "\<exists>accuracy cols rows.
         read_wgdos_header env bs = (0, accuracy, cols, rows) \<and> dims arr = [rows, cols]"
    using wgdos_unpack_py_returns_be [of env mdi bs field arr] by blast
next
  assume "2 \<le> length d \<and> cmps_call env d mdi acc (start bs field) = Some (ptr, nw, 0, msg)"
  then show "\<exists>post. trace (snd (wgdos_pack_py env d mdi acc (start bs field))) =
         [Call_calloc (size_t (s64 (d ! 0 * d ! 1))),
          Call_cmps_all_wrapper (calloc_ok env (size_t (s64 (d ! 0 * d ! 1)))),
          Call_get_machine_endianism]
         @ (if get_machine_endianism env = littleEndian
            then [Call_pio_byteswap (c_div (s64 (nw + 1)) 2) 8] else [])
         @ post
       \<and> (\<forall>e \<in> set post.
            e = Call_free
            \<or> e = Call_PyString_FromStringAndSize (s64 (c_div (s64 (nw + 1)) 2 * 8)))"
    using wgdos_pack_py_trace [of d env mdi acc bs field ptr nw msg] by blast
next
  assume a: "get_machine_endianism env = littleEndian
        \<and> cmps_call env d mdi acc (start bs field) = Some (Some block, nw, 0, msg)
        \<and> fst (wgdos_pack_py env d mdi acc (start bs field)) = Returns packed"
  from a show "fst (pio_byteswap env block (c_div (s64 (nw + 1)) 2) 8) = 0"
    using wgdos_pack_py_returns_le [of env d mdi acc "start bs field" block nw msg packed]
    by blast
  from a show "packed = take (nat (s64 (c_div (s64 (nw + 1)) 2 * 8)))
                   (snd (pio_byteswap env block (c_div (s64 (nw + 1)) 2) 8))"
    using wgdos_pack_py_returns_le [of env d mdi acc "start bs field" block nw msg packed]
    by blast
next
  assume "get_machine_endianism env = bigEndian
        \<and> cmps_call env d mdi acc (start bs field) = Some (Some block, nw, 0, msg)
        \<and> fst (wgdos_pack_py env d mdi acc (start bs field)) = Returns packed"
  then show "packed = take (nat (s64 (c_div (s64 (nw + 1)) 2 * 8))) block"
    using wgdos_pack_py_returns_be [of env d mdi acc "start bs field" block nw msg packed]
    by blast
next
  assume "length d < 2 \<or> cmps_call env d mdi acc (start bs field) = None
        \<or> (cmps_call env d mdi acc (start bs field) = Some (ptr', nw', st, msg') \<and> st \<noteq> 0)"
  then show "\<forall>e \<in> set (trace (snd (wgdos_pack_py env d mdi acc (start bs field)))).
         \<not> is_pio_byteswap e"
    by (rule wgdos_pack_py_trace_early)
qed

theorem byteswap_order_witness:
  "get_machine_endianism le_host = littleEndian
   \<and> pio_byteswap le_host = pio_byteswap_spec
   \<and> fst (pio_byteswap le_host stream_1x2 (int (length stream_1x2 div 8)) 8) = 0
   \<and> take 3 (trace (snd (wgdos_unpack_py le_host missing
                (start stream_1x2 (replicate 5 missing))))) =
       [Call_get_machine_endianism, Call_pio_byteswap 5 8,
        Call_read_wgdos_header
          [0, 0, 0, 0, 0, 0, 0, 0,
           2, 0, 0, 0, 0, 0, 0, 0,
           1, 0, 0, 0, 0, 0, 0, 0,
           1, 0, 0, 0, 0, 0, 0, 0,
           0, 0, 0, 0, 0, 0, 0, 0]]
   \<and> read_wgdos_header le_host
         (snd (pio_byteswap le_host stream_1x2 (int (length stream_1x2 div 8)) 8)) =
       (0, 0, 2, 1)
   \<and> fst (wgdos_unpack_py le_host missing (start stream_1x2 (replicate 5 missing))) =
       Returns \<lparr>dims = [1, 2], data = [missing, missing]\<rparr>
   \<and> fst (pio_byteswap le_host [] (int (length ([] :: byte list) div 8)) 8) = 0
   \<and> fst (read_wgdos_header le_host
         (snd (pio_byteswap le_host [] (int (length ([] :: byte list) div 8)) 8))) = 1
   \<and> fst (wgdos_unpack_py le_host missing (start [] [])) =
       Raises ValueError ''Problem reading WGDOS header''
   \<and> get_machine_endianism be_host = bigEndian
   \<and> take 2 (trace (snd (wgdos_unpack_py be_host missing
                (start stream_1x2 (replicate 5 missing))))) =
       [Call_get_machine_endianism, Call_read_wgdos_header stream_1x2]
   \<and> (2::nat) \<le> length [1, 5 :: int]
   \<and> cmps_call le_host [1, 5] missing 0 (start stream_1x2 (replicate 5 missing)) =
       Some (Some [0, 0, 0, 0, 0, 0, 0, 0,
                   5, 0, 0, 0, 0, 0, 0, 0,
                   1, 0, 0, 0, 0, 0, 0, 0,
                   1, 0, 0, 0, 0, 0, 0, 0,
                   0, 0, 0, 0, 0, 0, 0, 0], 10, 0, [])
   \<and> trace (snd (wgdos_pack_py le_host [1, 5] missing 0
         (start stream_1x2 (replicate 5 missing)))) =
       [Call_calloc 5, Call_cmps_all_wrapper True, Call_get_machine_endianism,
        Call_pio_byteswap 5 8, Call_PyString_FromStringAndSize 40, Call_free]
   \<and> fst (wgdos_pack_py le_host [1, 5] missing 0 (start stream_1x2 (replicate 5 missing))) =
       Returns
         [0, 0, 0, 0, 0, 0, 0, 0,
          0, 0, 0, 0, 0, 0, 0, 5,
          0, 0, 0, 0, 0, 0, 0, 1,
          0, 0, 0, 0, 0, 0, 0, 1,
          0, 0, 0, 0, 0, 0, 0, 0]
   \<and> [0, 0, 0, 0, 0, 0, 0, 0,
       0, 0, 0, 0, 0, 0, 0, 5,
       0, 0, 0, 0, 0, 0, 0, 1,
       0, 0, 0, 0, 0, 0, 0, 1,
       0, 0, 0, 0, 0, 0, 0, 0] =
      take (nat (s64 (c_div (s64 (10 + 1)) 2 * 8)))
        (snd (pio_byteswap le_host
           [0, 0, 0, 0, 0, 0, 0, 0,
            5, 0, 0, 0, 0, 0, 0, 0,
            1, 0, 0, 0, 0, 0, 0, 0,
            1, 0, 0, 0, 0, 0, 0, 0,
            0, 0, 0, 0, 0, 0, 0, 0] (c_div (s64 (10 + 1)) 2) 8))
   \<and> cmps_call le_host [1, 5] missing 0 (start stream_1x2 (replicate 5 0)) =
       Some (Some (replicate 40 0), 0, 2, ''row kind not modelled'')
   \<and> trace (snd (wgdos_pack_py le_host [1, 5] missing 0 (start stream_1x2 (replicate 5 0)))) =
       [Call_calloc 5, Call_cmps_all_wrapper True, Call_free]"
proof -
  let ?native = "[0, 0, 0, 0, 0, 0, 0, 0,
                  5, 0, 0, 0, 0, 0, 0, 0,
                  1, 0, 0, 0, 0, 0, 0, 0,
                  1, 0, 0, 0, 0, 0, 0, 0,
                  0, 0, 0, 0, 0, 0, 0, 0] :: byte list"
  let ?file = "[0, 0, 0, 0, 0, 0, 0, 0,
                0, 0, 0, 0, 0, 0, 0, 5,
                0, 0, 0, 0, 0, 0, 0, 1,
                0, 0, 0, 0, 0, 0, 0, 1,
                0, 0, 0, 0, 0, 0, 0, 0] :: byte list"
  note th = byteswap_order [where env = le_host and mdi = missing and bs = stream_1x2
      and field = "replicate 5 missing" and d = "[1, 5]" and acc = 0 and ptr = "Some ?native"
      and block = ?native and nw = 10 and msg = "[]" and packed = ?file]
  have l: "get_machine_endianism le_host = littleEndian"
    and p: "pio_byteswap le_host = pio_byteswap_spec"
    by (simp_all add: le_host_def)
  have b: "get_machine_endianism be_host = bigEndian"
    by (simp add: be_host_def)
  have s0: "fst (pio_byteswap le_host stream_1x2 (int (length stream_1x2 div 8)) 8) = 0"
    by code_simp
  have t3: "take 3 (trace (snd (wgdos_unpack_py le_host missing
                (start stream_1x2 (replicate 5 missing))))) =
       [Call_get_machine_endianism, Call_pio_byteswap 5 8,
        Call_read_wgdos_header
          [0, 0, 0, 0, 0, 0, 0, 0,
           2, 0, 0, 0, 0, 0, 0, 0,
           1, 0, 0, 0, 0, 0, 0, 0,
           1, 0, 0, 0, 0, 0, 0, 0,
           0, 0, 0, 0, 0, 0, 0, 0]]"
    by code_simp
  have t2: "take 2 (trace (snd (wgdos_unpack_py be_host missing
                (start stream_1x2 (replicate 5 missing))))) =
       [Call_get_machine_endianism, Call_read_wgdos_header stream_1x2]"
    by code_simp
  have k: "cmps_call le_host [1, 5] missing 0 (start stream_1x2 (replicate 5 missing)) =
       Some (Some ?native, 10, 0, [])"
    by code_simp
  have tp: "trace (snd (wgdos_pack_py le_host [1, 5] missing 0
         (start stream_1x2 (replicate 5 missing)))) =
       [Call_calloc 5, Call_cmps_all_wrapper True, Call_get_machine_endianism,
        Call_pio_byteswap 5 8, Call_PyString_FromStringAndSize 40, Call_free]"
    by code_simp
  have r: "fst (wgdos_pack_py le_host [1, 5] missing 0
         (start stream_1x2 (replicate 5 missing))) = Returns ?file"
    by code_simp
  have tie: "?file = take (nat (s64 (c_div (s64 (10 + 1)) 2 * 8)))
        (snd (pio_byteswap le_host ?native (c_div (s64 (10 + 1)) 2) 8))"
    using th l k r by blast
  have k0: "cmps_call le_host [1, 5] missing 0 (start stream_1x2 (replicate 5 0)) =
       Some (Some (replicate 40 0), 0, 2, ''row kind not modelled'')"
    by code_simp
  have t0: "trace (snd (wgdos_pack_py le_host [1, 5] missing 0
         (start stream_1x2 (replicate 5 0)))) =
       [Call_calloc 5, Call_cmps_all_wrapper True, Call_free]"
    by code_simp
  have n: "(2::nat) \<le> length [1, 5 :: int]"
    by simp
  have h: "read_wgdos_header le_host
         (snd (pio_byteswap le_host stream_1x2 (int (length stream_1x2 div 8)) 8)) =
       (0, 0, 2, 1)"
    by code_simp
  have u: "fst (wgdos_unpack_py le_host missing (start stream_1x2 (replicate 5 missing))) =
       Returns \<lparr>dims = [1, 2], data = [missing, missing]\<rparr>"
    by code_simp
  have e0: "fst (pio_byteswap le_host [] (int (length ([] :: byte list) div 8)) 8) = 0"
    by code_simp
  have e1: "fst (read_wgdos_header le_host
         (snd (pio_byteswap le_host [] (int (length ([] :: byte list) div 8)) 8))) = 1"
    by code_simp
  have e2: "fst (wgdos_unpack_py le_host missing (start [] [])) =
       Raises ValueError ''Problem reading WGDOS header''"
    by code_simp
  show ?thesis
    using l p s0 t3 h u e0 e1 e2 b t2 n k tp r tie k0 t0 by blast
qed

text \<open>
  C2 as stated fails in "the entire incoming buffer". A stream of 44 bytes, five words and
  four bytes more, is swapped in its five words, and the header reader is given the last
  four bytes as they came; the field is unpacked and returned.
\<close>

theorem trailing_bytes_not_swapped:
  "length (stream_1x2 @ [1, 2, 3, 4]) = 44
   \<and> fst (wgdos_unpack_py le_host missing (start (stream_1x2 @ [1, 2, 3, 4]) [])) =
       Returns \<lparr>dims = [1, 2], data = [missing, missing]\<rparr>
   \<and> trace (snd (wgdos_unpack_py le_host missing (start (stream_1x2 @ [1, 2, 3, 4]) []))) =
       [Call_get_machine_endianism, Call_pio_byteswap 5 8,
        Call_read_wgdos_header
          [0, 0, 0, 0, 0, 0, 0, 0,
           2, 0, 0, 0, 0, 0, 0, 0,
           1, 0, 0, 0, 0, 0, 0, 0,
           1, 0, 0, 0, 0, 0, 0, 0,
           0, 0, 0, 0, 0, 0, 0, 0,
           1, 2, 3, 4],
        Call_calloc 2, Call_xpnd_all_wrapper, Call_PyArray_SimpleNewFromData [1, 2]]"
  by code_simp

text \<open>
  C3, as amended. The byte swap is asked for \<open>length div 8\<close> words, the length in bytes
  divided by 8 and rounded down, and no length is refused. On a little-endian machine whose
  \<^verbatim>\<open>pio_byteswap\<close> reverses words as specified, for a buffer of any length the step succeeds
  and the header is then read: every whole word has its bytes reversed, the
  \<open>length mod 8\<close> bytes behind the last whole word stay as they are, and the length is
  kept.
\<close>

theorem byteswap_counts_whole_words:
  assumes "get_machine_endianism env = littleEndian"
    and "pio_byteswap env = pio_byteswap_spec"
  shows "Call_pio_byteswap (int (length bs div 8)) 8
           \<in> set (trace (snd (wgdos_unpack_py env mdi (start bs field))))
     \<and> Call_read_wgdos_header (bytes_in (snd (wgdos_unpack_py env mdi (start bs field))))
           \<in> set (trace (snd (wgdos_unpack_py env mdi (start bs field))))
     \<and> length (bytes_in (snd (wgdos_unpack_py env mdi (start bs field)))) = length bs
     \<and> (\<forall>i < length bs div 8.
           take 8 (drop (8 * i) (bytes_in (snd (wgdos_unpack_py env mdi (start bs field))))) =
           rev (take 8 (drop (8 * i) bs)))
     \<and> drop (8 * (length bs div 8)) (bytes_in (snd (wgdos_unpack_py env mdi (start bs field)))) =
         drop (8 * (length bs div 8)) bs"
proof -
  let ?r = "wgdos_unpack_py env mdi (start bs field)"
  let ?k = "length bs div 8"
  have sw: "pio_byteswap env bs (int ?k) 8 = (0, swap_words ?k 8 bs)"
    using assms(2) pio_byteswap_spec_whole_words [of bs] by (simp add: whole_words)
  have after: "bytes_in (snd ?r) = swap_words ?k 8 bs"
    using assms(1) sw by (simp add: wgdos_unpack_py_bytes_in world_simps whole_words)
  have le: "?k * 8 \<le> length bs"
    by simp
  have u: "snd ?r = snd (unpack_field env (int (length bs)) mdi
      (record_call (Call_pio_byteswap (int ?k) 8)
        ((record_call Call_get_machine_endianism (start bs field))\<lparr>bytes_in := swap_words ?k 8 bs\<rparr>)))"
    using assms(1) sw by (simp add: wgdos_unpack_py_def Let_def world_simps whole_words)
  obtain rest where tr: "trace (snd ?r) =
      [Call_get_machine_endianism, Call_pio_byteswap (int ?k) 8]
        @ Call_read_wgdos_header (swap_words ?k 8 bs) # rest"
    using unpack_field_trace [of env "int (length bs)" mdi
      "record_call (Call_pio_byteswap (int ?k) 8)
        ((record_call Call_get_machine_endianism (start bs field))\<lparr>bytes_in := swap_words ?k 8 bs\<rparr>)"]
    unfolding u by (auto simp: world_simps)
  have 1: "Call_pio_byteswap (int ?k) 8 \<in> set (trace (snd ?r))"
    unfolding tr by simp
  have 2: "Call_read_wgdos_header (bytes_in (snd ?r)) \<in> set (trace (snd ?r))"
    unfolding after unfolding tr by simp
  have 3: "length (bytes_in (snd ?r)) = length bs"
    unfolding after by (rule length_swap_words)
  have 4: "\<forall>i < ?k. take 8 (drop (8 * i) (bytes_in (snd ?r))) = rev (take 8 (drop (8 * i) bs))"
    unfolding after using word_of_swap_words [OF le] by (simp add: mult.commute)
  have 5: "drop (8 * ?k) (bytes_in (snd ?r)) = drop (8 * ?k) bs"
    unfolding after using drop_swap_words [OF le] by (simp add: mult.commute)
  show ?thesis
    using 1 2 3 4 5 by blast
qed

theorem byteswap_counts_whole_words_witness:
  "get_machine_endianism le_host = littleEndian
   \<and> pio_byteswap le_host = pio_byteswap_spec
   \<and> bytes_in (snd (wgdos_unpack_py le_host missing (start [1, 2, 3, 4, 5, 6, 7, 8, 9] []))) =
       [8, 7, 6, 5, 4, 3, 2, 1, 9]
   \<and> Call_read_wgdos_header [8, 7, 6, 5, 4, 3, 2, 1, 9]
       \<in> set (trace (snd (wgdos_unpack_py le_host missing (start [1, 2, 3, 4, 5, 6, 7, 8, 9] []))))"
proof -
  have l: "get_machine_endianism le_host = littleEndian"
    by (simp add: le_host_def)
  have p: "pio_byteswap le_host = pio_byteswap_spec"
    by (simp add: le_host_def)
  have a: "bytes_in (snd (wgdos_unpack_py le_host missing (start [1, 2, 3, 4, 5, 6, 7, 8, 9] []))) =
       [8, 7, 6, 5, 4, 3, 2, 1, 9]"
    by code_simp
  show ?thesis
    using byteswap_counts_whole_words [OF l p, of "[1, 2, 3, 4, 5, 6, 7, 8, 9]" missing "[]"] l p
    unfolding a by simp
qed

text \<open>
  C3 as stated fails. A stream of 41 bytes, one more than five words, is swapped in its
  first five words and unpacked to a field of one row and two columns; no error is raised.
\<close>

theorem odd_length_unpacks:
  "length (stream_1x2 @ [7]) mod 8 = 1
   \<and> wgdos_unpack_py le_host missing (start (stream_1x2 @ [7]) []) =
     (Returns \<lparr>dims = [1, 2], data = [missing, missing]\<rparr>,
      \<lparr>bytes_in =
         [0, 0, 0, 0, 0, 0, 0, 0,
          2, 0, 0, 0, 0, 0, 0, 0,
          1, 0, 0, 0, 0, 0, 0, 0,
          1, 0, 0, 0, 0, 0, 0, 0,
          0, 0, 0, 0, 0, 0, 0, 0, 7],
       field_in = [], allocated = 1,
       trace =
         [Call_get_machine_endianism, Call_pio_byteswap 5 8,
          Call_read_wgdos_header
            [0, 0, 0, 0, 0, 0, 0, 0,
             2, 0, 0, 0, 0, 0, 0, 0,
             1, 0, 0, 0, 0, 0, 0, 0,
             1, 0, 0, 0, 0, 0, 0, 0,
             0, 0, 0, 0, 0, 0, 0, 0, 7],
          Call_calloc 2, Call_xpnd_all_wrapper,
          Call_PyArray_SimpleNewFromData [1, 2]]\<rparr>)"
  by code_simp

section \<open>The shape of a field\<close>

lemma unpack_field_dims:
  "fst (unpack_field env n mdi s) = Returns arr \<Longrightarrow>
     dims arr = [snd (snd (snd (read_wgdos_header env (bytes_in s)))),
                 fst (snd (snd (read_wgdos_header env (bytes_in s))))]"
  by (auto simp: unpack_field_def Let_def case_prod_beta world_simps split: if_splits)

lemma wgdos_unpack_py_dims:
  "fst (wgdos_unpack_py env mdi s) = Returns arr \<Longrightarrow>
     dims arr =
       [snd (snd (snd (read_wgdos_header env (bytes_in (snd (wgdos_unpack_py env mdi s)))))),
        fst (snd (snd (read_wgdos_header env (bytes_in (snd (wgdos_unpack_py env mdi s))))))]"
  by (auto simp: wgdos_unpack_py_def Let_def case_prod_beta world_simps unpack_field_bytes_in
      split: if_splits dest: unpack_field_dims)

lemma wgdos_pack_py_two_dims:
  assumes "2 \<le> length d" and "2 \<le> length d'" and "d ! 0 = d' ! 0" and "d ! 1 = d' ! 1"
  shows "wgdos_pack_py env d mdi acc s = wgdos_pack_py env d' mdi acc s"
proof -
  have k: "cmps_call env d mdi acc s = cmps_call env d' mdi acc s"
    using assms(3,4) by (simp add: cmps_call_def Let_def)
  have l: "\<not> length d < 2" "\<not> length d' < 2"
    using assms(1,2) by simp_all
  show ?thesis
    unfolding wgdos_pack_py_unfold [of env d] wgdos_pack_py_unfold [of env d'] k
    using l assms(3,4) by (simp split: option.split prod.split)
qed

text \<open>
  C6, as amended. Every array returned by \<open>wgdos_unpack_py\<close> has the shape (rows, cols)
  that \<^verbatim>\<open>read_wgdos_header\<close> gives for the stream in the byte order of the machine.
  \<open>wgdos_pack_py\<close> is given no shape of its own: it takes rows and cols from the first two
  dimensions of the field and looks at no other, so a field of more dimensions is packed as
  the field of its first two and no mismatch of shape is reported.
\<close>

theorem unpack_shape_from_header:
  "(\<forall>arr. fst (wgdos_unpack_py env mdi (start bs field)) = Returns arr \<longrightarrow>
      (let (status, accuracy, cols, rows) =
             read_wgdos_header env (bytes_in (snd (wgdos_unpack_py env mdi (start bs field))))
       in dims arr = [rows, cols]))
   \<and> wgdos_pack_py env (rows # cols # others) mdi accuracy (start bs field) =
       wgdos_pack_py env [rows, cols] mdi accuracy (start bs field)"
proof (intro conjI allI impI)
  fix arr
  assume "fst (wgdos_unpack_py env mdi (start bs field)) = Returns arr"
  then show "let (status, accuracy, cols, rows) =
             read_wgdos_header env (bytes_in (snd (wgdos_unpack_py env mdi (start bs field))))
       in dims arr = [rows, cols]"
    by (simp add: case_prod_beta wgdos_unpack_py_dims)
next
  show "wgdos_pack_py env (rows # cols # others) mdi accuracy (start bs field) =
       wgdos_pack_py env [rows, cols] mdi accuracy (start bs field)"
    by (rule wgdos_pack_py_two_dims) simp_all
qed

theorem unpack_shape_from_header_witness:
  "fst (wgdos_unpack_py le_host missing (start stream_1x2 [])) =
     Returns \<lparr>dims = [1, 2], data = [missing, missing]\<rparr>
   \<and> read_wgdos_header le_host
        (bytes_in (snd (wgdos_unpack_py le_host missing (start stream_1x2 [])))) = (0, 0, 2, 1)
   \<and> wgdos_pack_py le_host [1, 5, 2] missing 0 (start [] (replicate 10 missing)) =
       wgdos_pack_py le_host [1, 5] missing 0 (start [] (replicate 10 missing))"
proof -
  have r: "fst (wgdos_unpack_py le_host missing (start stream_1x2 [])) =
     Returns \<lparr>dims = [1, 2], data = [missing, missing]\<rparr>"
    by code_simp
  have h: "read_wgdos_header le_host
        (bytes_in (snd (wgdos_unpack_py le_host missing (start stream_1x2 [])))) = (0, 0, 2, 1)"
    by code_simp
  show ?thesis
    using unpack_shape_from_header [of le_host missing stream_1x2 "[]"] r h
      unpack_shape_from_header [of le_host missing "[]" "replicate 10 missing" 1 5 "[2]" 0]
    by simp
qed

text \<open>
  C6 as stated fails. A field of shape (1, 5, 2) is packed as one row of five cells, the
  five that come first in its data, and a stream is returned.
\<close>

theorem pack_three_dimensions:
  "fst (wgdos_pack_py le_host [1, 5, 2] missing 0 (start [] (replicate 10 missing))) =
     Returns
       [0, 0, 0, 0, 0, 0, 0, 0,
        0, 0, 0, 0, 0, 0, 0, 5,
        0, 0, 0, 0, 0, 0, 0, 1,
        0, 0, 0, 0, 0, 0, 0, 1,
        0, 0, 0, 0, 0, 0, 0, 0]"
  by code_simp

section \<open>Allocation and release\<close>

lemma unpack_field_allocated:
  "fst (unpack_field env n mdi s) = Raises x msg \<Longrightarrow>
     allocated (snd (unpack_field env n mdi s)) = allocated s"
  by (auto simp: unpack_field_def Let_def case_prod_beta world_simps split: if_splits)

lemma wgdos_unpack_py_allocated:
  "fst (wgdos_unpack_py env mdi s) = Raises x msg \<Longrightarrow>
     allocated (snd (wgdos_unpack_py env mdi s)) = allocated s"
  by (auto simp: wgdos_unpack_py_def Let_def case_prod_beta world_simps
      split: if_splits dest: unpack_field_allocated)

lemma unpack_failure_frees:
  "fst (wgdos_unpack_py env mdi (start bs field)) = Raises x msg \<Longrightarrow>
     allocated (snd (wgdos_unpack_py env mdi (start bs field))) = 0"
  using wgdos_unpack_py_allocated [of env mdi "start bs field" x msg] by (simp add: start_simps)

lemma cmps_call_block:
  "cmps_call env d mdi acc s = Some (Some block, nw, st, msg) \<Longrightarrow>
     calloc_ok env (size_t (s64 (d ! 0 * d ! 1)))"
  by (auto simp: cmps_call_def Let_def case_prod_beta split: if_splits option.splits)

lemma pack_output_swap_failure:
  assumes "get_machine_endianism env = littleEndian"
    and "fst (pio_byteswap env block (c_div (s64 (nw + 1)) 2) 8) \<noteq> 0"
  shows "fst (pack_output env (Some block) nw s) = Raises ValueError ''Problem in byte-swapping''
     \<and> allocated (snd (pack_output env (Some block) nw s)) = allocated s
     \<and> trace (snd (pack_output env (Some block) nw s)) =
         trace s @ [Call_get_machine_endianism, Call_pio_byteswap (c_div (s64 (nw + 1)) 2) 8]"
  using assms by (simp add: pack_output_def byteswap_out_def Let_def case_prod_beta world_simps)

lemma pack_swap_failure_leaks:
  assumes "get_machine_endianism env = littleEndian"
    and "2 \<le> length d"
    and "cmps_call env d mdi acc s = Some (Some block, nw, 0, msg)"
    and "fst (pio_byteswap env block (c_div (s64 (nw + 1)) 2) 8) \<noteq> 0"
  shows "fst (wgdos_pack_py env d mdi acc s) = Raises ValueError ''Problem in byte-swapping''
     \<and> allocated (snd (wgdos_pack_py env d mdi acc s)) = Suc (allocated s)"
  using assms cmps_call_block [OF assms(3)]
    pack_output_swap_failure [OF assms(1) assms(4)]
  by (simp add: wgdos_pack_py_unfold world_simps)

text \<open>
  C5. A call that fails returns no object, and \<open>wgdos_unpack_py\<close> frees its block on every
  failing path (the lemmas above). \<open>wgdos_pack_py\<close> does not: when \<^verbatim>\<open>pio_byteswap\<close> reports
  a failure the call raises the error and returns while the packed buffer is still
  allocated, with no call of \<^verbatim>\<open>free\<close>. The call below is on a field of one row of five
  missing cells.
\<close>

theorem pack_swap_failure_keeps_block:
  "wgdos_pack_py swap_refused [1, 5] missing 0 (start [] (replicate 5 missing)) =
     (Raises ValueError ''Problem in byte-swapping'',
      \<lparr>bytes_in = [], field_in = [missing, missing, missing, missing, missing],
       allocated = 1,
       trace = [Call_calloc 5, Call_cmps_all_wrapper True, Call_get_machine_endianism,
                Call_pio_byteswap 5 8]\<rparr>)"
  by code_simp

text \<open>The other failing path of \<open>wgdos_pack_py\<close>, a refusal of the packing routine, frees.\<close>

lemma pack_cmps_failure_frees_block:
  "wgdos_pack_py le_host [1, 5] missing 0 (start [] (replicate 5 0)) =
     (Raises ValueError ''row kind not modelled'',
      \<lparr>bytes_in = [], field_in = [0, 0, 0, 0, 0],
       allocated = 0,
       trace = [Call_calloc 5, Call_cmps_all_wrapper True, Call_free]\<rparr>)"
  by code_simp

lemma pack_unchecked_calloc:
  assumes "2 \<le> length d" and "\<not> calloc_ok env (size_t (s64 (d ! 0 * d ! 1)))"
  shows "\<exists>rest. trace (snd (wgdos_pack_py env d mdi acc (start bs field))) =
           Call_calloc (size_t (s64 (d ! 0 * d ! 1))) # Call_cmps_all_wrapper False # rest"
proof (cases "cmps_call env d mdi acc (start bs field)")
  case None
  then show ?thesis
    using assms by (simp add: wgdos_pack_py_unfold world_simps)
next
  case (Some r)
  obtain ptr nw st msg where r: "r = (ptr, nw, st, msg)"
    by (cases r)
  let ?s2 = "record_call (Call_cmps_all_wrapper False)
               (snd (calloc env (size_t (s64 (d ! 0 * d ! 1))) (start bs field)))"
  have t2: "trace ?s2 = [Call_calloc (size_t (s64 (d ! 0 * d ! 1))), Call_cmps_all_wrapper False]"
    by (simp add: world_simps)
  show ?thesis
  proof (cases "st = 0")
    case False
    then have "snd (wgdos_pack_py env d mdi acc (start bs field)) = free_ptr ptr ?s2"
      using assms Some r by (simp add: wgdos_pack_py_unfold)
    then show ?thesis
      using t2 by (simp add: world_simps)
  next
    case True
    then have u: "snd (wgdos_pack_py env d mdi acc (start bs field)) =
        snd (pack_output env ptr nw ?s2)"
      using assms Some r by (simp add: wgdos_pack_py_unfold)
    from pack_output_trace [of env ptr nw ?s2] show ?thesis
      unfolding u t2 by auto
  qed
qed

lemma unpack_field_checked_calloc:
  assumes "read_wgdos_header env (bytes_in s) = (0, accuracy, cols, rows)"
    and "\<not> calloc_ok env (size_t (s64 (rows * cols)))"
  shows "fst (unpack_field env n mdi s) = Raises ValueError ''Unable to allocate memory for unpacking''"
  using assms by (simp add: unpack_field_def Let_def case_prod_beta world_simps)

text \<open>
  C8. When \<^verbatim>\<open>calloc\<close> returns \<^verbatim>\<open>NULL\<close>, \<open>wgdos_unpack_py\<close> and \<open>sstpert_py\<close> raise an
  error that says so. \<open>wgdos_pack_py\<close> does not test the pointer: it hands the
  \<^verbatim>\<open>NULL\<close> buffer to the packing routine, and no error is raised. What follows is the
  routine's doing; here it writes the packed field through the pointer.
\<close>

theorem pack_passes_null_buffer:
  "wgdos_pack_py no_memory [1, 5] missing 0 (start [] (replicate 5 missing)) =
     (Fault NullPointer,
      \<lparr>bytes_in = [], field_in = [missing, missing, missing, missing, missing],
       allocated = 0,
       trace = [Call_calloc 5, Call_cmps_all_wrapper False]\<rparr>)
   \<and> fst (wgdos_unpack_py no_memory missing (start stream_1x2 [])) =
       Raises ValueError ''Unable to allocate memory for unpacking''
   \<and> fst (sstpert_py no_memory 1 \<lparr>dims = [8], data = [2018, 1, 1, 0, 0, 0, 1, 101]\<rparr>
             \<lparr>dims = [1, 2, 12], data = replicate 24 0\<rparr> (start [] [])) =
       Raises ValueError ''Unable to allocate memory for sstpert''"
  by code_simp

section \<open>The perturbation entry point\<close>

text \<open>
  What \<open>sstpert_py\<close> tests is the first dimension of the descriptor and the third of the
  climatology. For a climatology of three dimensions and a descriptor array it raises an
  error, returns no array and allocates nothing whenever the first dimension of the
  descriptor is not 8 or the last dimension of the climatology is not 12. When both hold
  and the allocator and the Python runtime give the block and the array, it returns an
  array of two dimensions, the first two of the climatology; and every array it returns
  has that shape.
\<close>

lemma sstpert_py_checks:
  assumes "length (dims fieldclim) = 3" and "dims dt \<noteq> []"
  shows "(dims dt ! 0 \<noteq> 8 \<or> dims fieldclim ! 2 \<noteq> 12 \<longrightarrow>
            (\<exists>msg. sstpert_py env factor dt fieldclim s = (Raises ValueError msg, s)))
     \<and> (dims dt ! 0 = 8 \<and> dims fieldclim ! 2 = 12
          \<and> calloc_ok env (size_t (s64 (dims fieldclim ! 0 * dims fieldclim ! 1)))
          \<and> PyArray_SimpleNewFromData_ok env [dims fieldclim ! 0, dims fieldclim ! 1] \<longrightarrow>
            (\<exists>values. fst (sstpert_py env factor dt fieldclim s) =
               Returns \<lparr>dims = take 2 (dims fieldclim), data = values\<rparr>))
     \<and> (\<forall>arr. fst (sstpert_py env factor dt fieldclim s) = Returns arr \<longrightarrow>
            dims arr = take 2 (dims fieldclim) \<and> dims dt ! 0 = 8 \<and> dims fieldclim ! 2 = 12)"
proof -
  obtain r c m where d: "dims fieldclim = [r, c, m]"
    using assms(1) by (cases "dims fieldclim"; simp; rename_tac a as; case_tac as; simp;
      rename_tac b bs; case_tac bs; simp)
  have t: "take 2 (dims fieldclim) = [r, c]"
    by (simp add: d)
  have n: "\<not> length (dims dt) < 1"
    using assms(2) by (cases "dims dt") simp_all
  show ?thesis
    unfolding t using n
    by (auto simp: sstpert_py_def d Let_def case_prod_beta world_simps split: if_splits)
qed

lemma sstpert_py_checks_example:
  "length (dims \<lparr>dims = [1, 2, 12], data = replicate 24 (0::double)\<rparr>) = 3
   \<and> dims \<lparr>dims = [8], data = [2018, 1, 1, 0, 0, 0, 1, 101 :: int]\<rparr> \<noteq> []
   \<and> fst (sstpert_py le_host 1 \<lparr>dims = [8], data = [2018, 1, 1, 0, 0, 0, 1, 101]\<rparr>
             \<lparr>dims = [1, 2, 12], data = replicate 24 0\<rparr> (start [] [])) =
       Returns \<lparr>dims = [1, 2], data = [0, 0]\<rparr>
   \<and> fst (sstpert_py le_host 1 \<lparr>dims = [7], data = [2018, 1, 1, 0, 0, 0, 1]\<rparr>
             \<lparr>dims = [1, 2, 12], data = replicate 24 0\<rparr> (start [] [])) =
       Raises ValueError ''Date array must have 8 elements''
   \<and> fst (sstpert_py le_host 1 \<lparr>dims = [8], data = [2018, 1, 1, 0, 0, 0, 1, 101]\<rparr>
             \<lparr>dims = [1, 2, 11], data = replicate 22 0\<rparr> (start [] [])) =
       Raises ValueError ''Climatology must have a final dimension of 12''"
proof -
  let ?dt = "\<lparr>dims = [8], data = [2018, 1, 1, 0, 0, 0, 1, 101 :: int]\<rparr>"
  let ?clim = "\<lparr>dims = [1, 2, 12], data = replicate 24 (0::double)\<rparr>"
  have a: "length (dims ?clim) = 3" and b: "dims ?dt \<noteq> []"
    by simp_all
  have r: "fst (sstpert_py le_host 1 ?dt ?clim (start [] [])) = Returns \<lparr>dims = [1, 2], data = [0, 0]\<rparr>"
    by code_simp
  have e1: "fst (sstpert_py le_host 1 \<lparr>dims = [7], data = [2018, 1, 1, 0, 0, 0, 1]\<rparr>
             \<lparr>dims = [1, 2, 12], data = replicate 24 0\<rparr> (start [] [])) =
       Raises ValueError ''Date array must have 8 elements''"
    by code_simp
  have e2: "fst (sstpert_py le_host 1 \<lparr>dims = [8], data = [2018, 1, 1, 0, 0, 0, 1, 101]\<rparr>
             \<lparr>dims = [1, 2, 11], data = replicate 22 0\<rparr> (start [] [])) =
       Raises ValueError ''Climatology must have a final dimension of 12''"
    by code_simp
  from sstpert_py_checks [OF a b, of le_host 1 "start [] []"] r
  have "dims \<lparr>dims = [1, 2], data = [0, 0 :: double]\<rparr> = take 2 (dims ?clim)"
    by blast
  then show ?thesis
    using a b r e1 e2 by blast
qed

text \<open>
  C9. The number of elements of the descriptor is not tested, and the number of
  dimensions of neither array is. A descriptor of shape (8, 2), with 16 elements, is taken
  with a climatology of shape (1, 2, 12) and a grid is returned; so is a grid for a
  climatology of shape (1, 2, 12, 5), whose final dimension is 5. The claim, and the
  binding's own messages (\<^verbatim>\<open>Date array must have 8 elements\<close>,
  \<^verbatim>\<open>Climatology must have a final dimension of 12\<close>), say that both calls fail.
\<close>

theorem sstpert_py_takes_sixteen_elements:
  "length (data \<lparr>dims = [8, 2],
                 data = [2018, 1, 1, 0, 0, 0, 1, 101, 2018, 1, 1, 0, 0, 0, 2, 102 :: int]\<rparr>) = 16
   \<and> fst (sstpert_py le_host 1
            \<lparr>dims = [8, 2], data = [2018, 1, 1, 0, 0, 0, 1, 101, 2018, 1, 1, 0, 0, 0, 2, 102]\<rparr>
            \<lparr>dims = [1, 2, 12], data = replicate 24 0\<rparr> (start [] [])) =
       Returns \<lparr>dims = [1, 2], data = [0, 0]\<rparr>
   \<and> fst (sstpert_py le_host 1
            \<lparr>dims = [8], data = [2018, 1, 1, 0, 0, 0, 1, 101]\<rparr>
            \<lparr>dims = [1, 2, 12, 5], data = replicate 120 0\<rparr> (start [] [])) =
       Returns \<lparr>dims = [1, 2], data = [0, 0]\<rparr>"
  by code_simp

end
